theory Spec2Isabelle
  imports Main "HOL-Library.Sublist"
begin

section \<open>Errors\<close>

text \<open>
  Every error value the loader can hand back. The first four are the operating
  system's answers to \<open>os.Stat\<close> and \<open>os.ReadFile\<close> (only \<open>NotExist\<close> satisfies
  \<open>os.IsNotExist\<close>), \<open>Errorf\<close> is an error built with \<open>fmt.Errorf\<close>, \<open>ParseError\<close> and
  \<open>TypeError\<close> come from the Go parser and type checker, and \<open>Panic\<close> stands for a
  run-time panic (nil dereference).
\<close>

datatype error =
    NotExist string
  | NotDir string
  | Permission string
  | IsDirectory string
  | Errorf string
  | ParseError string
  | TypeError string
  | Panic string

fun IsNotExist :: "error \<Rightarrow> bool" where
  "IsNotExist (NotExist p) = True"
| "IsNotExist e = False"

text \<open>\<open>err.Error()\<close>, the text of an error.\<close>

fun errorText :: "error \<Rightarrow> string" where
  "errorText (NotExist p) = ''stat '' @ p @ '': no such file or directory''"
| "errorText (NotDir p) = ''stat '' @ p @ '': not a directory''"
| "errorText (Permission p) = ''open '' @ p @ '': permission denied''"
| "errorText (IsDirectory p) = ''read '' @ p @ '': is a directory''"
| "errorText (Errorf msg) = msg"
| "errorText (ParseError msg) = msg"
| "errorText (TypeError msg) = msg"
| "errorText (Panic msg) = msg"

section \<open>Constants\<close>

text \<open>From \<open>const.go\<close>.\<close>

definition NoneString :: string where "NoneString = []"
definition GoFileSuffix :: string where "GoFileSuffix = ''.go''"
definition GoModFileName :: string where "GoModFileName = ''go.mod''"
definition PathSeparator :: string where "PathSeparator = ''/''"
definition GoModulePrefix :: string where "GoModulePrefix = ''module ''"

text \<open>
  Modelled from the spec: the constants \<open>NewLine\<close>, \<open>ModulePrefix\<close>, \<open>VersionPrefix\<close>,
  \<open>TabString\<close>, \<open>SpaceChar\<close>, \<open>GoModIndirect\<close> and \<open>PackagePrefix\<close> are used by the manifest
  reader and the package-clause scanner but their declarations are missing from the
  sources at hand. The spec names them "module-declaration keyword",
  "version-declaration keyword", "tab character", "split on whitespace", "the literal
  indirect-marker" (compared with the last whitespace-delimited token) and
  "package-declaration keyword"; the values follow the \<open>go.mod\<close> format and the sibling
  constant \<open>GoModulePrefix\<close>.
\<close>

definition NewLine :: string where "NewLine = [CHR 0x0A]"
definition ModulePrefix :: string where "ModulePrefix = ''module ''"
definition VersionPrefix :: string where "VersionPrefix = ''go ''"
definition TabString :: string where "TabString = [CHR 0x09]"
definition SpaceChar :: string where "SpaceChar = '' ''"
definition GoModIndirect :: string where "GoModIndirect = ''indirect''"
definition PackagePrefix :: string where "PackagePrefix = ''package ''"

section \<open>The \<open>strings\<close> package\<close>

text \<open>A Go string is a sequence of bytes; \<open>char\<close> is a byte.\<close>

definition HasPrefix :: "string \<Rightarrow> string \<Rightarrow> bool" where
  "HasPrefix s p = prefix p s"

definition HasSuffix :: "string \<Rightarrow> string \<Rightarrow> bool" where
  "HasSuffix s x = suffix x s"

text \<open>
  \<open>strings.Split s sep\<close> for a non-empty separator: the pieces between the leftmost
  non-overlapping occurrences of \<open>sep\<close>. (For the empty separator Go explodes the string
  into UTF-8 sequences; the code never passes one, and the model explodes into bytes.)
\<close>

function SplitFrom :: "string \<Rightarrow> string \<Rightarrow> string \<Rightarrow> string list" where
  "SplitFrom sep acc [] = [rev acc]"
| "SplitFrom sep acc (x # xs) =
     (if sep \<noteq> [] \<and> prefix sep (x # xs)
      then rev acc # SplitFrom sep [] (drop (length sep) (x # xs))
      else SplitFrom sep (x # acc) xs)"
  by pat_completeness auto
termination
  by (relation "measure (\<lambda>(sep, acc, s). length s)") auto

definition Split :: "string \<Rightarrow> string \<Rightarrow> string list" where
  "Split s sep = (if sep = [] then map (\<lambda>c. [c]) s else SplitFrom sep [] s)"

text \<open>
  The UTF-8 encodings of the code points \<open>unicode.IsSpace\<close> accepts: tab, line feed,
  vertical tab, form feed, carriage return, space, U+0085, U+00A0, U+1680,
  U+2000 to U+200A, U+2028, U+2029, U+202F, U+205F and U+3000.
\<close>

definition spaceRunes :: "string list" where
  "spaceRunes =
     [[CHR 0x09], [CHR 0x0A], [CHR 0x0B], [CHR 0x0C], [CHR 0x0D], [CHR 0x20],
      [CHR 0xC2, CHR 0x85], [CHR 0xC2, CHR 0xA0], [CHR 0xE1, CHR 0x9A, CHR 0x80],
      [CHR 0xE2, CHR 0x80, CHR 0x80], [CHR 0xE2, CHR 0x80, CHR 0x81],
      [CHR 0xE2, CHR 0x80, CHR 0x82], [CHR 0xE2, CHR 0x80, CHR 0x83],
      [CHR 0xE2, CHR 0x80, CHR 0x84], [CHR 0xE2, CHR 0x80, CHR 0x85],
      [CHR 0xE2, CHR 0x80, CHR 0x86], [CHR 0xE2, CHR 0x80, CHR 0x87],
      [CHR 0xE2, CHR 0x80, CHR 0x88], [CHR 0xE2, CHR 0x80, CHR 0x89],
      [CHR 0xE2, CHR 0x80, CHR 0x8A], [CHR 0xE2, CHR 0x80, CHR 0xA8],
      [CHR 0xE2, CHR 0x80, CHR 0xA9], [CHR 0xE2, CHR 0x80, CHR 0xAF],
      [CHR 0xE2, CHR 0x81, CHR 0x9F], [CHR 0xE3, CHR 0x80, CHR 0x80]]"

text \<open>Strip, from the front, every leading occurrence of one of the given byte sequences.\<close>

function trimFront :: "string list \<Rightarrow> string \<Rightarrow> string" where
  "trimFront rs s =
     (case find (\<lambda>r. prefix r s) rs of
        None \<Rightarrow> s
      | Some r \<Rightarrow> if r = [] \<or> s = [] then s else trimFront rs (drop (length r) s))"
  by pat_completeness auto
termination
  by (relation "measure (\<lambda>(rs, s). length s)") auto

declare trimFront.simps [simp del]

definition TrimSpace :: "string \<Rightarrow> string" where
  "TrimSpace s = rev (trimFront (map rev spaceRunes) (rev (trimFront spaceRunes s)))"

text \<open>\<open>strings.Trim s cutset\<close> for a cutset of ASCII characters.\<close>

definition Trim :: "string \<Rightarrow> string \<Rightarrow> string" where
  "Trim s cutset =
     rev (dropWhile (\<lambda>c. c \<in> set cutset) (rev (dropWhile (\<lambda>c. c \<in> set cutset) s)))"

section \<open>The \<open>path/filepath\<close> package (Unix)\<close>

text \<open>The pieces of a path between its slashes; \<open>n\<close> slashes give \<open>n + 1\<close> pieces.\<close>

fun splitSep :: "string \<Rightarrow> string \<Rightarrow> string list" where
  "splitSep acc [] = [rev acc]"
| "splitSep acc (c # cs) =
     (if c = CHR ''/'' then rev acc # splitSep [] cs else splitSep (c # acc) cs)"

fun joinSep :: "string list \<Rightarrow> string" where
  "joinSep [] = []"
| "joinSep [e] = e"
| "joinSep (e # es) = e @ CHR ''/'' # joinSep es"

text \<open>
  \<open>filepath.Clean\<close>: empty and \<open>.\<close> elements go, an inner \<open>..\<close> goes together with the
  element before it, a \<open>..\<close> at the start of a rooted path goes. The second argument is
  the stack of elements kept so far, last one first.
\<close>

fun cleanElems :: "bool \<Rightarrow> string list \<Rightarrow> string list \<Rightarrow> string list" where
  "cleanElems rooted st [] = rev st"
| "cleanElems rooted st (e # es) =
     (if e = [] \<or> e = ''.'' then cleanElems rooted st es
      else if e = ''..'' then
        (case st of
           [] \<Rightarrow> if rooted then cleanElems rooted [] es else cleanElems rooted [''..''] es
         | t # ts \<Rightarrow> if t = ''..'' then cleanElems rooted (''..'' # st) es
                    else cleanElems rooted ts es)
      else cleanElems rooted (e # st) es)"

definition IsAbs :: "string \<Rightarrow> bool" where
  "IsAbs p = HasPrefix p ''/''"

definition Clean :: "string \<Rightarrow> string" where
  "Clean p =
     (if p = [] then ''.''
      else let out = joinSep (cleanElems (IsAbs p) [] (splitSep [] p))
           in if IsAbs p then CHR ''/'' # out
              else if out = [] then ''.'' else out)"

definition Join :: "string list \<Rightarrow> string" where
  "Join elems =
     (let es = filter (\<lambda>e. e \<noteq> []) elems
      in if es = [] then [] else Clean (joinSep es))"

definition Dir :: "string \<Rightarrow> string" where
  "Dir p = Clean (rev (dropWhile (\<lambda>c. c \<noteq> CHR ''/'') (rev p)))"

definition Base :: "string \<Rightarrow> string" where
  "Base p =
     (if p = [] then ''.''
      else let q = dropWhile (\<lambda>c. c = CHR ''/'') (rev p);
               b = rev (takeWhile (\<lambda>c. c \<noteq> CHR ''/'') q)
           in if b = [] then ''/'' else b)"

text \<open>The non-empty elements of a path.\<close>

definition elems :: "string \<Rightarrow> string list" where
  "elems p = filter (\<lambda>e. e \<noteq> []) (splitSep [] p)"

text \<open>
  A cleaned rooted path is a slash followed by its elements joined with slashes, where
  no element is empty, \<open>.\<close> or \<open>..\<close> or contains a slash.
\<close>

definition goodElems :: "string list \<Rightarrow> bool" where
  "goodElems cs = (\<forall>c \<in> set cs. c \<noteq> [] \<and> CHR ''/'' \<notin> set c \<and> c \<noteq> ''.'' \<and> c \<noteq> ''..'')"

definition render :: "string list \<Rightarrow> string" where
  "render cs = CHR ''/'' # joinSep cs"

fun dropCommon :: "string list \<Rightarrow> string list \<Rightarrow> string list \<times> string list" where
  "dropCommon (b # bs) (t # ts) = (if b = t then dropCommon bs ts else (b # bs, t # ts))"
| "dropCommon bs ts = (bs, ts)"

text \<open>
  \<open>filepath.Rel\<close>: both paths are cleaned, their common leading elements dropped, and
  the rest of the base is climbed with \<open>..\<close>. It fails when one path is rooted and the
  other is not, and when the first differing element of the base is \<open>..\<close>. The program
  only passes rooted paths (a module root and an absolute file path).
\<close>

definition Rel :: "string \<Rightarrow> string \<Rightarrow> error + string" where
  "Rel basepath targpath =
     (let base = Clean basepath; targ = Clean targpath
      in if targ = base then Inr ''.''
         else let base' = (if base = ''.'' then [] else base)
              in if IsAbs base' \<noteq> IsAbs targ
                 then Inl (Errorf (''Rel: can't make '' @ targpath @ '' relative to '' @ basepath))
                 else (case dropCommon (elems base') (elems targ) of
                         (b, t) \<Rightarrow>
                           if b \<noteq> [] \<and> t \<noteq> [] \<and> hd b = ''..''
                           then Inl (Errorf (''Rel: can't make '' @ targpath
                                              @ '' relative to '' @ basepath))
                           else Inr (joinSep (map (\<lambda>_. ''..'') b @ t))))"

section \<open>The file system, the clock, the parser and the type checker\<close>

text \<open>
  The file system is a tree: a readable file with its bytes, a file that exists but
  cannot be read, or a directory with its entries in the order \<open>os.ReadDir\<close> lists them.
  There are no symbolic links.
\<close>

datatype node = File string | Locked | Directory "(string \<times> node) list"

text \<open>
  What the Go parser extracts from one source text: the offset of the \<open>package\<close>
  keyword, the declared package name, and the import specs (the quoted path literal of
  each, \<open>None\<close> for a spec without one).
\<close>

record syntax_tree =
  pkgOffset :: nat
  declName :: string
  importLits :: "string option list"

text \<open>
  \<open>ast.File\<close> as the loader reads it: \<open>sPos\<close> is \<open>syntax.Pos()\<close>, a position in the
  file set; \<open>sName\<close> is \<open>syntax.Name.Name\<close>; \<open>sImports\<close> are the \<open>Path.Value\<close>s of
  \<open>syntax.Imports\<close>.
\<close>

record ast_File =
  sPos :: nat
  sName :: string
  sImports :: "string option list"

text \<open>
  \<open>token.FileSet\<close>: the files added so far, each with its name, base position and size.
  (\<open>//line\<close> directives, which can rename a position's file, are not modelled.)
\<close>

record fset_file =
  fname :: string
  fbase :: nat
  fsize :: nat

type_synonym FileSet = "fset_file list"

datatype types_Package = TypesPackage string
datatype types_Info = TypesInfo nat
datatype types_Sizes = SizesFor string string

text \<open>What \<open>types.Config.Check\<close> returns, and the type tables it fills in.\<close>

record check_result =
  resPkg :: "types_Package option"
  resInfo :: types_Info
  resErr :: "error option"

text \<open>
  Everything outside the program: the file tree, the working directory (\<open>os.Getwd\<close>,
  which does not fail here), the clock (\<open>time.Now\<close>), \<open>build.Default.GOARCH\<close>, the Go
  parser applied to a file name and its bytes, and the Go type checker applied to an
  import path, a file set (possibly nil) and a list of syntax trees.
\<close>

record world =
  root :: node
  cwd :: string
  now :: nat
  goarch :: string
  parser :: "string \<Rightarrow> string \<Rightarrow> error + syntax_tree"
  checker :: "string \<Rightarrow> FileSet option \<Rightarrow> ast_File list \<Rightarrow> check_result"

definition Abs :: "world \<Rightarrow> string \<Rightarrow> string" where
  "Abs w p = (if IsAbs p then Clean p else Join [cwd w, p])"

fun IsDir :: "node \<Rightarrow> bool" where
  "IsDir (Directory es) = True"
| "IsDir n = False"

text \<open>Looking a name up in a directory.\<close>

fun child :: "string \<Rightarrow> node \<Rightarrow> string \<Rightarrow> error + node" where
  "child p (Directory es) c = (case map_of es c of None \<Rightarrow> Inl (NotExist p) | Some n \<Rightarrow> Inr n)"
| "child p n c = Inl (NotDir p)"

text \<open>
  The kernel resolves a path element by element, from the root for a rooted path and
  from the working directory otherwise. The state is the node reached and the
  directories above it. An empty element (from a doubled or trailing slash) and \<open>.\<close>
  stay where they are, \<open>..\<close> goes to the parent, a name goes to the entry of that name;
  each of them needs a directory to start from.
\<close>

fun climb :: "string \<Rightarrow> node \<times> node list \<Rightarrow> string \<Rightarrow> error + node \<times> node list" where
  "climb p (n, up) c =
     (if c = [] \<or> c = ''.'' then (if IsDir n then Inr (n, up) else Inl (NotDir p))
      else if c = ''..''
      then (if IsDir n then Inr (case up of [] \<Rightarrow> (n, []) | u # us \<Rightarrow> (u, us))
            else Inl (NotDir p))
      else (case child p n c of Inl e \<Rightarrow> Inl e | Inr m \<Rightarrow> Inr (m, n # up)))"

fun resolve ::
  "string \<Rightarrow> node \<times> node list \<Rightarrow> string list \<Rightarrow> error + node \<times> node list" where
  "resolve p at [] = Inr at"
| "resolve p at (c # cs) =
     (case climb p at c of Inl e \<Rightarrow> Inl e | Inr at' \<Rightarrow> resolve p at' cs)"

text \<open>\<open>os.Stat\<close>; the empty path does not exist.\<close>

definition Stat :: "world \<Rightarrow> string \<Rightarrow> error + node" where
  "Stat w p =
     (if p = [] then Inl (NotExist p)
      else (case (if IsAbs p then Inr (root w, [])
                  else resolve p (root w, []) (splitSep [] (cwd w))) of
              Inl e \<Rightarrow> Inl e
            | Inr start \<Rightarrow>
                (case resolve p start (splitSep [] p) of
                   Inl e \<Rightarrow> Inl e
                 | Inr (n, up) \<Rightarrow> Inr n)))"

text \<open>Descent by names only: how a cleaned rooted path is resolved.\<close>

fun walk :: "string \<Rightarrow> node \<Rightarrow> string list \<Rightarrow> error + node" where
  "walk p n [] = Inr n"
| "walk p n (c # cs) = (case child p n c of Inl e \<Rightarrow> Inl e | Inr m \<Rightarrow> walk p m cs)"

definition ReadFile :: "world \<Rightarrow> string \<Rightarrow> error + string" where
  "ReadFile w p =
     (case Stat w p of
        Inl e \<Rightarrow> Inl e
      | Inr (File bytes) \<Rightarrow> Inr bytes
      | Inr Locked \<Rightarrow> Inl (Permission p)
      | Inr (Directory es) \<Rightarrow> Inl (IsDirectory p))"

text \<open>The error of a \<open>Stat\<close> that \<open>os.IsNotExist\<close> accepts, if any.\<close>

definition notExist :: "error + node \<Rightarrow> error option" where
  "notExist r = (case r of Inl e \<Rightarrow> if IsNotExist e then Some e else None | Inr n \<Rightarrow> None)"

section \<open>Module: the manifest reader\<close>

record Module =
  RootPath :: string
  GoVersion :: string
  GoModFile :: string
  ModuleName :: string
  DirectDeps :: "string \<rightharpoonup> string"
  IndirectDeps :: "string \<rightharpoonup> string"

text \<open>The body of the loop over the manifest's lines.\<close>

definition moduleLine :: "Module \<Rightarrow> string \<Rightarrow> Module" where
  "moduleLine module line =
     (if HasPrefix line ModulePrefix
      then module\<lparr>ModuleName := TrimSpace (drop (length ModulePrefix) line)\<rparr>
      else if HasPrefix line VersionPrefix
      then module\<lparr>GoVersion := TrimSpace (drop (length VersionPrefix) line)\<rparr>
      else if HasPrefix line TabString
      then (let items = Split (TrimSpace line) SpaceChar
            in if length items \<ge> 2
               then (let depPkgPath = TrimSpace (items ! 0);
                         depVersion = TrimSpace (items ! 1);
                         lastItem = TrimSpace (items ! (length items - 1))
                     in if lastItem = GoModIndirect
                        then module\<lparr>IndirectDeps := (IndirectDeps module)(depPkgPath \<mapsto> depVersion)\<rparr>
                        else module\<lparr>DirectDeps := (DirectDeps module)(depPkgPath \<mapsto> depVersion)\<rparr>)
               else module)
      else module)"

definition newModule :: "world \<Rightarrow> string \<Rightarrow> error + Module" where
  "newModule w goModFile =
     (case notExist (Stat w goModFile) of
        Some err \<Rightarrow> Inl err
      | None \<Rightarrow>
          if \<not> HasSuffix goModFile GoModFileName
          then Inl (Errorf (''not go.mod: '' @ goModFile))
          else (let goModFile' = Abs w goModFile
                in case ReadFile w goModFile' of
                     Inl err \<Rightarrow> Inl err
                   | Inr bytes \<Rightarrow>
                       if length bytes = 0
                       then Inl (Errorf (''empty file: '' @ goModFile'))
                       else Inr (foldl moduleLine
                                  \<lparr>RootPath = Dir goModFile', GoVersion = [],
                                   GoModFile = goModFile', ModuleName = [],
                                   DirectDeps = Map.empty, IndirectDeps = Map.empty\<rparr>
                                  (Split bytes NewLine))))"

section \<open>Program, Package, SrcFile and the heap\<close>

text \<open>
  Programs, packages and source files are heap objects that point to one another. A
  pointer is an address (\<open>nat\<close>); a pointer that may be nil is a \<open>nat option\<close>. The heap
  maps every address to an object and knows the next free address of each kind; an
  object is only ever reached through a pointer made by allocation. \<open>checks\<close> records each
  invocation of the type checker (import path and syntax trees), last one first.
\<close>

record LoadInfo =
  LoadTime :: nat
  LoadedFiles :: "string list"
  IgnoredFiles :: "string list"
  IllTyped :: bool
  FileErrors :: "error list"
  TypeErrors :: "error list"
  DepsErrors :: "error list"

text \<open>\<open>ssa.Member\<close>, as far as the model reads it: its name and its \<open>Pos()\<close>.\<close>

record Member =
  memberName :: string
  memberPos :: nat

record Program =
  pkgSet :: "string \<rightharpoonup> nat"
  module :: "Module option"

record Package =
  program :: "nat option"
  pkgName :: string
  pkgPath :: string
  dirPath :: string
  loadInfo :: "LoadInfo option"
  srcFiles :: "string \<rightharpoonup> nat"
  fileSet :: "FileSet option"
  pkgImports :: "string list"
  typePkg :: "types_Package option"
  typInfo :: "types_Info option"
  typSize :: "types_Sizes option"

record SrcFile =
  filePkg :: "nat option"
  filePath :: string
  fileCode :: string
  fileSyntax :: "ast_File option"
  memSet :: "Member list"

record heap =
  progs :: "nat \<Rightarrow> Program"
  pkgs :: "nat \<Rightarrow> Package"
  files :: "nat \<Rightarrow> SrcFile"
  nextProg :: nat
  nextPkg :: nat
  nextFile :: nat
  checks :: "(string \<times> ast_File list) list"

definition newPackage :: "nat option \<Rightarrow> string \<Rightarrow> string \<Rightarrow> string \<Rightarrow> Package" where
  "newPackage prog name ppath dpath =
     \<lparr>program = prog, pkgName = name, pkgPath = ppath, dirPath = dpath,
      loadInfo = None, srcFiles = Map.empty, fileSet = None, pkgImports = [],
      typePkg = None, typInfo = None, typSize = None\<rparr>"

definition newSrcFile :: "nat option \<Rightarrow> string \<Rightarrow> SrcFile" where
  "newSrcFile p fpath =
     \<lparr>filePkg = p, filePath = fpath, fileCode = NoneString, fileSyntax = None, memSet = []\<rparr>"

definition newProgram :: Program where
  "newProgram = \<lparr>pkgSet = Map.empty, module = None\<rparr>"

text \<open>The heap before anything is allocated.\<close>

definition emptyHeap :: heap where
  "emptyHeap =
     \<lparr>progs = (\<lambda>a. newProgram), pkgs = (\<lambda>a. newPackage None [] [] []),
      files = (\<lambda>a. newSrcFile None []), nextProg = 0, nextPkg = 0, nextFile = 0,
      checks = []\<rparr>"

text \<open>Taking the address of a new object (\<open>&Program{...}\<close>, \<open>&Package{...}\<close>, \<open>&SrcFile{...}\<close>).\<close>

definition allocProgram :: "heap \<Rightarrow> Program \<Rightarrow> nat \<times> heap" where
  "allocProgram h x = (nextProg h, h\<lparr>progs := (progs h)(nextProg h := x), nextProg := Suc (nextProg h)\<rparr>)"

definition allocPackage :: "heap \<Rightarrow> Package \<Rightarrow> nat \<times> heap" where
  "allocPackage h x = (nextPkg h, h\<lparr>pkgs := (pkgs h)(nextPkg h := x), nextPkg := Suc (nextPkg h)\<rparr>)"

definition allocSrcFile :: "heap \<Rightarrow> SrcFile \<Rightarrow> nat \<times> heap" where
  "allocSrcFile h x = (nextFile h, h\<lparr>files := (files h)(nextFile h := x), nextFile := Suc (nextFile h)\<rparr>)"

text \<open>
  \<open>Program.newPackage\<close>: create the package at \<open>ppath\<close> unless the registry has one, and
  return what the registry holds there.
\<close>

definition Program_newPackage ::
  "heap \<Rightarrow> nat option \<Rightarrow> string \<Rightarrow> string \<Rightarrow> string \<Rightarrow> nat option \<times> heap" where
  "Program_newPackage h prog name ppath dpath =
     (case prog of
        None \<Rightarrow> (None, h)
      | Some pa \<Rightarrow>
          (let h' = (case pkgSet (progs h pa) ppath of
                       Some existing \<Rightarrow> h
                     | None \<Rightarrow>
                         (case allocPackage h (newPackage prog name ppath dpath) of
                            (a, h1) \<Rightarrow>
                              h1\<lparr>progs := (progs h1)
                                   (pa := (progs h1 pa)
                                            \<lparr>pkgSet := (pkgSet (progs h1 pa))(ppath \<mapsto> a)\<rparr>)\<rparr>))
           in (pkgSet (progs h' pa) ppath, h')))"

text \<open>\<open>Package.newSrcFile\<close>, the same for the source files of a package.\<close>

definition Package_newSrcFile :: "heap \<Rightarrow> nat option \<Rightarrow> string \<Rightarrow> nat option \<times> heap" where
  "Package_newSrcFile h p srcPath =
     (case p of
        None \<Rightarrow> (None, h)
      | Some pa \<Rightarrow>
          (let h' = (case srcFiles (pkgs h pa) srcPath of
                       Some existing \<Rightarrow> h
                     | None \<Rightarrow>
                         (case allocSrcFile h (newSrcFile p srcPath) of
                            (a, h1) \<Rightarrow>
                              h1\<lparr>pkgs := (pkgs h1)
                                   (pa := (pkgs h1 pa)
                                            \<lparr>srcFiles := (srcFiles (pkgs h1 pa))(srcPath \<mapsto> a)\<rparr>)\<rparr>))
           in (srcFiles (pkgs h' pa) srcPath, h')))"

section \<open>Positions\<close>

text \<open>
  \<open>fileSet.Position(pos).Filename\<close>: the name of the file whose range holds \<open>pos\<close>; the
  empty string for \<open>token.NoPos\<close> (which is 0) and for a position in no file. A nil file
  set is dereferenced, and panics, only when the position is valid.
\<close>

definition PositionFilename :: "FileSet \<Rightarrow> nat \<Rightarrow> string" where
  "PositionFilename fset pos =
     (if pos = 0 then []
      else (case find (\<lambda>f. fbase f \<le> pos \<and> pos \<le> fbase f + fsize f) fset of
              None \<Rightarrow> []
            | Some f \<Rightarrow> fname f))"

definition Position :: "FileSet option \<Rightarrow> nat \<Rightarrow> error + string" where
  "Position fs pos =
     (case fs of
        Some fset \<Rightarrow> Inr (PositionFilename fset pos)
      | None \<Rightarrow> if pos = 0 then Inr [] else Inl (Panic ''nil FileSet''))"

section \<open>SrcFile\<close>

text \<open>\<open>SrcFile.Contain\<close>; the receiver's package pointer is dereferenced without a check.\<close>

definition Contain :: "heap \<Rightarrow> nat option \<Rightarrow> nat \<Rightarrow> error + bool" where
  "Contain h file pos =
     (case file of
        None \<Rightarrow> Inr False
      | Some fa \<Rightarrow>
          if pos = 0 then Inr False
          else (case filePkg (files h fa) of
                  None \<Rightarrow> Inl (Panic ''nil Package'')
                | Some pa \<Rightarrow>
                    (case Position (fileSet (pkgs h pa)) pos of
                       Inl e \<Rightarrow> Inl e
                     | Inr name \<Rightarrow> Inr (name = filePath (files h fa)))))"

text \<open>
  The loop of \<open>SrcFile.update\<close> over the members (a Go map, here the list of its entries
  in the order the loop visits them; a nil interface value is \<open>None\<close>). The file's
  \<open>memSet\<close> grows in the heap as the loop runs.
\<close>

fun attach :: "heap \<Rightarrow> nat \<Rightarrow> (string \<times> Member option) list \<Rightarrow> error option \<times> heap" where
  "attach h fa [] = (None, h)"
| "attach h fa ((key, None) # rest) = attach h fa rest"
| "attach h fa ((key, Some member) # rest) =
     (case Contain h (Some fa) (memberPos member) of
        Inl e \<Rightarrow> (Some e, h)
      | Inr True \<Rightarrow>
          attach (h\<lparr>files := (files h)
                     (fa := (files h fa)\<lparr>memSet := memSet (files h fa) @ [member]\<rparr>)\<rparr>) fa rest
      | Inr False \<Rightarrow> attach h fa rest)"

definition SrcFile_update ::
  "heap \<Rightarrow> nat option \<Rightarrow> string \<Rightarrow> ast_File option \<Rightarrow> (string \<times> Member option) list
     \<Rightarrow> error option \<times> heap" where
  "SrcFile_update h file src syn members =
     (case file of
        None \<Rightarrow> (Some (Errorf ''nil file is used''), h)
      | Some fa \<Rightarrow>
          attach (h\<lparr>files := (files h)
                     (fa := (files h fa)\<lparr>fileCode := src, fileSyntax := syn, memSet := []\<rparr>)\<rparr>)
            fa members)"

section \<open>Parsing one file\<close>

definition fsetBase :: "FileSet \<Rightarrow> nat" where
  "fsetBase fset = (if fset = [] then 1 else fbase (last fset) + fsize (last fset) + 1)"

text \<open>
  \<open>parser.ParseFile fset filename nil mode\<close>: the file is read; if that works it is added
  to the file set, whether or not its text parses. The syntax tree of a text with a
  syntax error is not used by the program and is not modelled.
\<close>

definition ParseFile :: "world \<Rightarrow> FileSet \<Rightarrow> string \<Rightarrow> FileSet \<times> (error + ast_File)" where
  "ParseFile w fset filename =
     (case ReadFile w filename of
        Inl err \<Rightarrow> (fset, Inl err)
      | Inr src \<Rightarrow>
          (let base = fsetBase fset;
               fset' = fset @ [\<lparr>fname = filename, fbase = base, fsize = length src\<rparr>]
           in case parser w filename src of
                Inl err \<Rightarrow> (fset', Inl err)
              | Inr t \<Rightarrow> (fset', Inr \<lparr>sPos = base + pkgOffset t, sName = declName t,
                                       sImports = importLits t\<rparr>)))"

section \<open>The type-checking passes\<close>

text \<open>\<open>ast.Package\<close>: its name and its \<open>Files\<close>, a map from file name to syntax tree (or nil).\<close>

record ast_Package =
  apName :: string
  apFiles :: "(string \<times> ast_File option) list"

text \<open>The import paths of one syntax tree, quotes trimmed.\<close>

definition importPaths :: "ast_File \<Rightarrow> string list" where
  "importPaths syn = map (\<lambda>v. Trim v [CHR 0x22]) (List.map_filter id (sImports syn))"

text \<open>
  Step 2 of \<open>parseGoPackageByFree\<close>: the loop over the syntax trees. A file that cannot
  be read, or is empty, adds a file error and is left out of the list for the type
  checker.
\<close>

fun readFiles ::
  "world \<Rightarrow> heap \<Rightarrow> nat \<Rightarrow> LoadInfo \<Rightarrow> ast_File list \<Rightarrow> (string \<times> ast_File option) list
     \<Rightarrow> error + (heap \<times> LoadInfo \<times> ast_File list)" where
  "readFiles w h pa li astFiles [] = Inr (h, li, astFiles)"
| "readFiles w h pa li astFiles ((key, None) # rest) = readFiles w h pa li astFiles rest"
| "readFiles w h pa li astFiles ((key, Some syn) # rest) =
     (case Position (fileSet (pkgs h pa)) (sPos syn) of
        Inl e \<Rightarrow> Inl e
      | Inr name \<Rightarrow>
          (let srcPath = Abs w name
           in case ReadFile w srcPath of
                Inl readErr \<Rightarrow>
                  readFiles w h pa (li\<lparr>FileErrors := FileErrors li @ [readErr]\<rparr>) astFiles rest
              | Inr bytes \<Rightarrow>
                  if length bytes = 0
                  then readFiles w h pa
                         (li\<lparr>FileErrors := FileErrors li @ [Errorf (''empty file: '' @ srcPath)]\<rparr>)
                         astFiles rest
                  else (case Package_newSrcFile h (Some pa) srcPath of
                          (srcFile, h1) \<Rightarrow>
                            (case SrcFile_update h1 srcFile bytes (Some syn) [] of
                               (ignored, h2) \<Rightarrow>
                                 readFiles w h2 pa
                                   (li\<lparr>LoadedFiles := LoadedFiles li @ [srcPath]\<rparr>)
                                   (astFiles @ [syn]) rest))))"

text \<open>
  \<open>parseGoPackageByFree\<close>. The result is the error returned (a \<open>Panic\<close> if the pass
  panics) and the heap. The package printed by \<open>%v\<close> in the first error message is left
  out of the message.
\<close>

definition parseGoPackageByFree ::
  "world \<Rightarrow> heap \<Rightarrow> nat option \<Rightarrow> ast_Package option \<Rightarrow> error option \<times> heap" where
  "parseGoPackageByFree w h p astPkg =
     (case p of
        None \<Rightarrow> (Some (Errorf ''no go files in: ''), h)
      | Some pa \<Rightarrow>
          (case astPkg of
             None \<Rightarrow> (Some (Errorf ''no go files in: ''), h)
           | Some ap \<Rightarrow>
               if length (apFiles ap) = 0 then (Some (Errorf ''no go files in: ''), h)
               else (case readFiles w h pa
                            \<lparr>LoadTime = now w, LoadedFiles = [], IgnoredFiles = [],
                             IllTyped = False, FileErrors = [], TypeErrors = [],
                             DepsErrors = []\<rparr> [] (apFiles ap) of
                       Inl e \<Rightarrow> (Some e, h)
                     | Inr (h1, li, astFiles) \<Rightarrow>
                         (let res = checker w (pkgPath (pkgs h1 pa)) (fileSet (pkgs h1 pa)) astFiles;
                              li' = (case resErr res of
                                       Some typeErr \<Rightarrow>
                                         li\<lparr>IllTyped := True,
                                            TypeErrors := TypeErrors li @ [typeErr]\<rparr>
                                     | None \<Rightarrow>
                                         if resPkg res = None
                                         then li\<lparr>IllTyped := True,
                                                 TypeErrors := TypeErrors li
                                                   @ [Errorf ''no types.Package'']\<rparr>
                                         else li);
                              found = remdups (filter (\<lambda>i. length i > 0)
                                        (concat (map importPaths
                                                   (List.map_filter snd (apFiles ap)))));
                              old = pkgs h1 pa
                          in (None,
                              h1\<lparr>pkgs := (pkgs h1)
                                    (pa := old\<lparr>loadInfo := Some li', typePkg := resPkg res,
                                                typInfo := Some (resInfo res),
                                                typSize := Some (SizesFor ''gc'' (goarch w)),
                                                pkgImports := pkgImports old @ found\<rparr>),
                                  checks := (pkgPath (pkgs h1 pa), astFiles) # checks h1\<rparr>)))))"

text \<open>\<open>parseSourceFileByFree\<close>, the pass over a single file.\<close>

definition parseSourceFileByFree :: "world \<Rightarrow> heap \<Rightarrow> nat option \<Rightarrow> error option \<times> heap" where
  "parseSourceFileByFree w h srcFile =
     (case srcFile of
        None \<Rightarrow> (Some (Errorf ''incomplete: ''), h)
      | Some fa \<Rightarrow>
          (case filePkg (files h fa) of
             None \<Rightarrow> (Some (Errorf (''incomplete: '' @ filePath (files h fa))), h)
           | Some pa \<Rightarrow>
               (case ReadFile w (filePath (files h fa)) of
                  Inl readErr \<Rightarrow> (Some readErr, h)
                | Inr srcBytes \<Rightarrow>
                    if length srcBytes = 0
                    then (Some (Errorf (''empty file: '' @ filePath (files h fa))), h)
                    else (case ParseFile w [] (filePath (files h fa)) of
                            (fset, Inl parseErr) \<Rightarrow> (Some parseErr, h)
                          | (fset, Inr syn) \<Rightarrow>
                              (case SrcFile_update h (Some fa) srcBytes (Some syn) [] of
                                 (ignored, h1) \<Rightarrow>
                                   (let res = checker w (pkgPath (pkgs h1 pa)) (Some fset) [syn];
                                        h2 = h1\<lparr>checks := (pkgPath (pkgs h1 pa), [syn])
                                                             # checks h1\<rparr>;
                                        old = pkgs h2 pa
                                    in case resPkg res of
                                         None \<Rightarrow>
                                           (Some (Errorf (''can't create types.Package: ''
                                                           @ pkgPath old)), h2)
                                       | Some tp \<Rightarrow>
                                           (None,
                                            h2\<lparr>pkgs := (pkgs h2)
                                              (pa := old
                                                 \<lparr>fileSet := Some fset, typePkg := Some tp,
                                                  typInfo := Some (resInfo res),
                                                  typSize := Some (SizesFor ''gc'' (goarch w)),
                                                  pkgImports := pkgImports old @ importPaths syn,
                                                  loadInfo := Some
                                                    \<lparr>LoadTime = now w,
                                                     LoadedFiles = [filePath (files h fa)],
                                                     IgnoredFiles = [],
                                                     IllTyped = (resErr res \<noteq> None),
                                                     FileErrors = [],
                                                     TypeErrors = (case resErr res of
                                                                     None \<Rightarrow> []
                                                                   | Some typeErr \<Rightarrow> [typeErr]),
                                                     DepsErrors = []\<rparr>\<rparr>)\<rparr>)))))))"

section \<open>Package path inference\<close>

definition readGoPackageIn :: "world \<Rightarrow> string \<Rightarrow> error + string" where
  "readGoPackageIn w goFile =
     (case notExist (Stat w goFile) of
        Some err \<Rightarrow> Inl err
      | None \<Rightarrow>
          (case ReadFile w goFile of
             Inl err \<Rightarrow> Inl err
           | Inr bytes \<Rightarrow>
               (case find (\<lambda>line. HasPrefix (TrimSpace line) PackagePrefix)
                       (Split bytes NewLine) of
                  Some line \<Rightarrow> Inr (TrimSpace (drop (length PackagePrefix) (TrimSpace line)))
                | None \<Rightarrow> Inl (Errorf ''no package name is found''))))"

definition inferGoPkgInfo ::
  "world \<Rightarrow> Module option \<Rightarrow> string \<Rightarrow> error + (string \<times> string \<times> string)" where
  "inferGoPkgInfo w modl file =
     (let fpath = Abs w file
      in case modl of
           None \<Rightarrow> Inl (Errorf ''no go module info is provided'')
         | Some m \<Rightarrow>
             (case Stat w fpath of
                Inl err \<Rightarrow>
                  if IsNotExist err then Inl (Errorf (''file not exist: '' @ fpath))
                  else Inl (Errorf (''can't get info: '' @ fpath))
              | Inr fileInfo \<Rightarrow>
                  if IsDir fileInfo
                  then (case Rel (RootPath m) fpath of
                          Inl err \<Rightarrow> Inl err
                        | Inr relPath \<Rightarrow> Inr (Join [ModuleName m, relPath], Base fpath, fpath))
                  else if HasSuffix fpath GoFileSuffix
                  then (let pkgDir = Dir fpath
                        in case Rel (RootPath m) pkgDir of
                             Inl err \<Rightarrow> Inl err
                           | Inr relPath \<Rightarrow>
                               (case readGoPackageIn w fpath of
                                  Inl err \<Rightarrow> Inl err
                                | Inr name \<Rightarrow> Inr (Join [ModuleName m, relPath], name, pkgDir)))
                  else (let pkgDir = Dir fpath
                        in case Rel (RootPath m) pkgDir of
                             Inl err \<Rightarrow> Inl err
                           | Inr relPath \<Rightarrow>
                               Inr (Join [ModuleName m, relPath], Base pkgDir, pkgDir))))"

section \<open>Finding the manifest\<close>

text \<open>
  The search walks from a directory to its parents with \<open>filepath.Dir\<close>. It ends
  because each parent is a shorter path or one of the paths at which the loop stops;
  the lemmas below measure a cleaned path by the lengths of its elements.
\<close>

definition wgt :: "string list \<Rightarrow> nat" where
  "wgt es = sum_list (map (\<lambda>e. Suc (length e)) es)"

lemma wgt_simps [simp]: "wgt [] = 0" "wgt (e # es) = Suc (length e) + wgt es"
  by (simp_all add: wgt_def)

lemma wgt_append [simp]: "wgt (xs @ ys) = wgt xs + wgt ys"
  by (simp add: wgt_def)

lemma wgt_rev [simp]: "wgt (rev xs) = wgt xs"
  by (induction xs) auto

lemma wgt_splitSep: "wgt (splitSep acc s) = Suc (length acc + length s)"
  by (induction s arbitrary: acc) auto

lemma length_joinSep: "length (joinSep es) = wgt es - 1"
  by (induction es rule: joinSep.induct) auto

lemma wgt_cleanElems:
  "wgt (cleanElems r st es) + length (filter (\<lambda>e. e = []) es) \<le> wgt st + wgt es"
proof (induction es arbitrary: st)
  case Nil
  then show ?case by simp
next
  case (Cons e es)
  show ?case
  proof (cases st)
    case Nil
    with Cons [of "[]"] Cons [of "[''..'']"] Cons [of "[e]"] show ?thesis
      by (auto split: if_splits)
  next
    case (Cons t ts)
    with Cons.IH [of st] Cons.IH [of ts] Cons.IH [of "''..'' # st"] Cons.IH [of "e # st"]
    show ?thesis
      by (auto split: if_splits)
  qed
qed

lemma splitSep_last_empty:
  "s \<noteq> [] \<Longrightarrow> last s = CHR ''/'' \<Longrightarrow> [] \<in> set (splitSep acc s)"
  by (induction s arbitrary: acc) (auto split: if_splits)

lemma filter_empty_pos: "[] \<in> set es \<Longrightarrow> 0 < length (filter (\<lambda>e. e = []) es)"
  by (induction es) auto

lemma length_Clean: "Clean p = ''.'' \<or> length (Clean p) \<le> length p"
proof (cases p)
  case Nil
  then show ?thesis by (simp add: Clean_def)
next
  case (Cons c cs)
  show ?thesis
  proof (cases "c = CHR ''/''")
    case True
    have "wgt (cleanElems True [] (splitSep [] cs)) \<le> Suc (length cs)"
      using wgt_cleanElems [of True "[]" "splitSep [] cs"] by (simp add: wgt_splitSep)
    then show ?thesis
      using Cons True by (simp add: Clean_def IsAbs_def HasPrefix_def length_joinSep)
  next
    case False
    have "wgt (cleanElems False [] (splitSep [] p)) \<le> Suc (length p)"
      using wgt_cleanElems [of False "[]" "splitSep [] p"] by (simp add: wgt_splitSep)
    then show ?thesis
      using Cons False by (auto simp add: Clean_def IsAbs_def HasPrefix_def length_joinSep Let_def)
  qed
qed

lemma length_Clean_slash:
  assumes "2 \<le> length p" and "last p = CHR ''/''"
  shows "Clean p = ''.'' \<or> length (Clean p) < length p"
proof (cases p)
  case Nil
  with assms show ?thesis by simp
next
  case (Cons c cs)
  with assms have cs: "cs \<noteq> []" "last cs = CHR ''/''" by (auto split: if_splits)
  show ?thesis
  proof (cases "c = CHR ''/''")
    case True
    have "0 < length (filter (\<lambda>e. e = []) (splitSep [] cs))"
      using splitSep_last_empty [OF cs] filter_empty_pos by blast
    moreover have "wgt (cleanElems True [] (splitSep [] cs))
        + length (filter (\<lambda>e. e = []) (splitSep [] cs)) \<le> Suc (length cs)"
      using wgt_cleanElems [of True "[]" "splitSep [] cs"] by (simp add: wgt_splitSep)
    ultimately have "wgt (cleanElems True [] (splitSep [] cs)) < Suc (length cs)"
      by linarith
    moreover have "0 < length cs" using cs by simp
    ultimately have "wgt (cleanElems True [] (splitSep [] cs)) - 1 < length cs"
      by linarith
    then show ?thesis
      using Cons True by (simp add: Clean_def IsAbs_def HasPrefix_def length_joinSep)
  next
    case False
    have "p \<noteq> []" "last p = CHR ''/''" using Cons assms by auto
    then have "0 < length (filter (\<lambda>e. e = []) (splitSep [] p))"
      using splitSep_last_empty filter_empty_pos by blast
    moreover have "wgt (cleanElems False [] (splitSep [] p))
        + length (filter (\<lambda>e. e = []) (splitSep [] p)) \<le> Suc (length p)"
      using wgt_cleanElems [of False "[]" "splitSep [] p"] by (simp add: wgt_splitSep)
    ultimately have "wgt (cleanElems False [] (splitSep [] p)) < Suc (length p)"
      by linarith
    then show ?thesis
      using Cons False by (auto simp add: Clean_def IsAbs_def HasPrefix_def length_joinSep Let_def)
  qed
qed

text \<open>The paths at which the upward search for a manifest stops.\<close>

definition stopPath :: "string \<Rightarrow> bool" where
  "stopPath p = (\<not> (length p > 0 \<and> p \<noteq> ''/'' \<and> p \<noteq> ''.'' \<and> p \<noteq> ''..''))"

lemma Dir_smaller:
  assumes "\<not> stopPath p"
  shows "stopPath (Dir p) \<or> length (Dir p) < length p"
proof -
  define q where "q = rev (dropWhile (\<lambda>c. c \<noteq> CHR ''/'') (rev p))"
  have len: "length q \<le> length p"
    using length_dropWhile_le [of "\<lambda>c. c \<noteq> CHR ''/''" "rev p"] by (simp add: q_def)
  have lastq: "q = [] \<or> last q = CHR ''/''"
    using hd_dropWhile [of "\<lambda>c. c \<noteq> CHR ''/''" "rev p"]
    by (auto simp add: q_def last_rev)
  have d: "Dir p = Clean q" by (simp add: Dir_def q_def)
  consider "q = []" | "q = ''/''" | "2 \<le> length q" "last q = CHR ''/''"
    using lastq by (cases q; cases "tl q") auto
  then show ?thesis
  proof cases
    case 1
    then show ?thesis by (simp add: d Clean_def stopPath_def)
  next
    case 2
    then show ?thesis by (simp add: d Clean_def stopPath_def IsAbs_def HasPrefix_def)
  next
    case 3
    from length_Clean_slash [OF 3] len show ?thesis
      by (auto simp add: d stopPath_def)
  qed
qed

text \<open>
  The loop of \<open>goModFileOf\<close>. It returns \<open>cwdPath\<close>, the directory in which a \<open>go.mod\<close>
  was found, not the path of the \<open>go.mod\<close> file.
\<close>

function goModFileLoop :: "world \<Rightarrow> string \<Rightarrow> string \<Rightarrow> error + string" where
  "goModFileLoop w start cwdPath =
     (if length cwdPath > 0 \<and> cwdPath \<noteq> ''/'' \<and> cwdPath \<noteq> ''.'' \<and> cwdPath \<noteq> ''..''
      then (let goModFile = Join [cwdPath, GoModFileName]
            in if notExist (Stat w goModFile) = None then Inr cwdPath
               else goModFileLoop w start (Dir cwdPath))
      else Inl (Errorf (''couldn't find `go.mod` file from: '' @ start)))"
  by pat_completeness auto
termination
proof (relation "measure (\<lambda>(w, start, p). if stopPath p then 0 else length p)")
  show "wf (measure (\<lambda>(w, start, p). if stopPath p then 0 else length p))"
    by simp
next
  fix w :: world and start cwdPath goModFile :: string
  assume "0 < length cwdPath \<and> cwdPath \<noteq> ''/'' \<and> cwdPath \<noteq> ''.'' \<and> cwdPath \<noteq> ''..''"
  then have "\<not> stopPath cwdPath"
    by (simp add: stopPath_def)
  with Dir_smaller [of cwdPath]
  show "((w, start, Dir cwdPath), (w, start, cwdPath))
          \<in> measure (\<lambda>(w, start, p). if stopPath p then 0 else length p)"
    by (auto simp add: stopPath_def)
qed

declare goModFileLoop.simps [simp del]

definition goModFileOf :: "world \<Rightarrow> string \<Rightarrow> error + string" where
  "goModFileOf w dir = goModFileLoop w dir (Abs w dir)"

definition initProgram :: "world \<Rightarrow> heap \<Rightarrow> string \<Rightarrow> (error + nat) \<times> heap" where
  "initProgram w h dir =
     (let cwdPath = Abs w (if length dir = 0 then cwd w else dir)
      in case goModFileOf w cwdPath of
           Inl err \<Rightarrow> (Inl err, h)
         | Inr goModFile \<Rightarrow>
             (case newModule w goModFile of
                Inl err \<Rightarrow> (Inl err, h)
              | Inr m \<Rightarrow>
                  (case allocProgram h \<lparr>pkgSet = Map.empty, module = Some m\<rparr> of
                     (a, h1) \<Rightarrow> (Inr a, h1))))"

section \<open>The free-form loaders\<close>

text \<open>
  Step 3 of \<open>loadSourceFileByFree\<close>, taken when no Program with a module was obtained:
  the file's directory becomes a package of its own, outside any Program.
\<close>

definition loadStandalone :: "world \<Rightarrow> heap \<Rightarrow> string \<Rightarrow> (error + nat) \<times> heap" where
  "loadStandalone w h codePath =
     (let pkgDir = Dir codePath
      in case readGoPackageIn w codePath of
           Inl err \<Rightarrow> (Inl err, h)
         | Inr name \<Rightarrow>
             (case allocPackage h (newPackage None name pkgDir pkgDir) of
                (pa, h2) \<Rightarrow>
                  (case Package_newSrcFile h2 (Some pa) codePath of
                     (None, h3) \<Rightarrow> (Inl (Errorf (''can't new source file: '' @ codePath)), h3)
                   | (Some fa, h3) \<Rightarrow>
                       (case parseSourceFileByFree w h3 (Some fa) of
                          (Some parseErr, h4) \<Rightarrow> (Inl parseErr, h4)
                        | (None, h4) \<Rightarrow> (Inr fa, h4)))))"

text \<open>
  \<open>loadSourceFileByFree\<close>. \<open>os.Stat\<close> failing with an error other than "not exist" leaves
  \<open>fileInfo\<close> nil, and \<open>fileInfo.IsDir()\<close> panics.
\<close>

definition loadSourceFileByFree :: "world \<Rightarrow> heap \<Rightarrow> string \<Rightarrow> (error + nat) \<times> heap" where
  "loadSourceFileByFree w h codeFile =
     (let codePath = Abs w codeFile
      in case Stat w codePath of
           Inl err \<Rightarrow> if IsNotExist err then (Inl err, h) else (Inl (Panic ''nil FileInfo''), h)
         | Inr fileInfo \<Rightarrow>
             if IsDir fileInfo then (Inl (Errorf (''not go file: '' @ codePath)), h)
             else if \<not> HasSuffix codePath GoFileSuffix
             then (Inl (Errorf ('' not go file: '' @ codePath)), h)
             else (case initProgram w h (Dir codePath) of
                     (Inl noProgram, h1) \<Rightarrow> loadStandalone w h1 codePath
                   | (Inr prog, h1) \<Rightarrow>
                       (case module (progs h1 prog) of
                          None \<Rightarrow> loadStandalone w h1 codePath
                        | Some m \<Rightarrow>
                            (case inferGoPkgInfo w (Some m) codePath of
                               Inl err \<Rightarrow>
                                 (Inl (Errorf (''can't get package: '' @ errorText err)), h1)
                             | Inr (ppath, name, pkgDir) \<Rightarrow>
                                 (case Program_newPackage h1 (Some prog) name ppath pkgDir of
                                    (None, h2) \<Rightarrow>
                                      (Inl (Errorf (''can't new package: '' @ ppath)), h2)
                                  | (Some pa, h2) \<Rightarrow>
                                      (case Package_newSrcFile h2 (Some pa) codePath of
                                         (None, h3) \<Rightarrow>
                                           (Inl (Errorf (''can't new source file: ''
                                                          @ codePath)), h3)
                                       | (Some fa, h3) \<Rightarrow>
                                           (case parseSourceFileByFree w h3 (Some fa) of
                                              (Some parseErr, h4) \<Rightarrow> (Inl parseErr, h4)
                                            | (None, h4) \<Rightarrow> (Inr fa, h4))))))))"

text \<open>
  \<open>parser.ParseDir\<close> of the Go library: every entry of the directory that is not a
  directory and whose name ends in \<open>.go\<close> is parsed; a file that parses joins the
  package of its declared name, a file that does not only sets the first error.
\<close>

fun addFile ::
  "(string \<times> ast_Package) list \<Rightarrow> string \<Rightarrow> string \<Rightarrow> ast_File \<Rightarrow> (string \<times> ast_Package) list" where
  "addFile [] name filename src = [(name, \<lparr>apName = name, apFiles = [(filename, Some src)]\<rparr>)]"
| "addFile ((key, ap) # rest) name filename src =
     (if key = name
      then (key, ap\<lparr>apFiles := filter (\<lambda>(f, t). f \<noteq> filename) (apFiles ap)
                                  @ [(filename, Some src)]\<rparr>) # rest
      else (key, ap) # addFile rest name filename src)"

fun parseEntries ::
  "world \<Rightarrow> string \<Rightarrow> FileSet \<Rightarrow> (string \<times> ast_Package) list \<Rightarrow> error option
     \<Rightarrow> (string \<times> node) list \<Rightarrow> FileSet \<times> (string \<times> ast_Package) list \<times> error option" where
  "parseEntries w dir fset found first [] = (fset, found, first)"
| "parseEntries w dir fset found first ((name, n) # rest) =
     (if IsDir n \<or> \<not> HasSuffix name ''.go'' then parseEntries w dir fset found first rest
      else (case ParseFile w fset (Join [dir, name]) of
              (fset', Inr src) \<Rightarrow>
                parseEntries w dir fset' (addFile found (sName src) (Join [dir, name]) src)
                  first rest
            | (fset', Inl err) \<Rightarrow>
                parseEntries w dir fset' found (if first = None then Some err else first) rest))"

definition ParseDir ::
  "world \<Rightarrow> FileSet \<Rightarrow> string
     \<Rightarrow> FileSet \<times> (string \<times> ast_Package) list option \<times> error option" where
  "ParseDir w fset dir =
     (case Stat w dir of
        Inl err \<Rightarrow> (fset, None, Some err)
      | Inr (Directory es) \<Rightarrow>
          (case parseEntries w dir fset [] None es of
             (fset', found, first) \<Rightarrow> (fset', Some found, first))
      | Inr other \<Rightarrow> (fset, None, Some (NotDir dir)))"

fun isPanic :: "error option \<Rightarrow> bool" where
  "isPanic (Some (Panic msg)) = True"
| "isPanic e = False"

text \<open>
  Step 3 of \<open>loadGoDirectoryByFree\<close>: the loop over the packages found in the directory
  (the entries of a Go map, in the order the loop visits them).
\<close>

fun loadPackages ::
  "world \<Rightarrow> heap \<Rightarrow> nat \<Rightarrow> FileSet \<Rightarrow> string \<Rightarrow> string \<Rightarrow> string
     \<Rightarrow> (string \<times> ast_Package) list \<Rightarrow> nat list \<Rightarrow> (error + nat list) \<times> heap" where
  "loadPackages w h prog fset goDirPath ppath name [] newPackages = (Inr newPackages, h)"
| "loadPackages w h prog fset goDirPath ppath name ((pkgKey, astPkg) # rest) newPackages =
     (if length pkgKey > 0 \<and> length (apFiles astPkg) > 0
      then (let newPkgPath = (if pkgKey \<noteq> name then ppath @ ''/'' @ pkgKey else ppath)
            in case Program_newPackage h (Some prog) pkgKey newPkgPath goDirPath of
                 (None, h1) \<Rightarrow> loadPackages w h1 prog fset goDirPath ppath name rest newPackages
               | (Some pa, h1) \<Rightarrow>
                   (case parseGoPackageByFree w
                           (h1\<lparr>pkgs := (pkgs h1)(pa := (pkgs h1 pa)\<lparr>fileSet := Some fset\<rparr>)\<rparr>)
                           (Some pa) (Some astPkg) of
                      (loadErr, h2) \<Rightarrow>
                        if isPanic loadErr then (Inl (the loadErr), h2)
                        else if loadErr = None
                        then loadPackages w h2 prog fset goDirPath ppath name rest
                               (newPackages @ [pa])
                        else loadPackages w h2 prog fset goDirPath ppath name rest newPackages))
      else loadPackages w h prog fset goDirPath ppath name rest newPackages)"

definition loadGoDirectoryByFree :: "world \<Rightarrow> heap \<Rightarrow> string \<Rightarrow> (error + nat list) \<times> heap" where
  "loadGoDirectoryByFree w h goDir =
     (let goDirPath = Abs w goDir
      in case Stat w goDirPath of
           Inl err \<Rightarrow> if IsNotExist err then (Inl err, h) else (Inl (Panic ''nil FileInfo''), h)
         | Inr fileInfo \<Rightarrow>
             if \<not> IsDir fileInfo then (Inl (Errorf (''not directory: '' @ goDirPath)), h)
             else (case ParseDir w [] goDirPath of
                     (fset, found, Some parseErr) \<Rightarrow> (Inl parseErr, h)
                   | (fset, found, None) \<Rightarrow>
                       if length (case found of None \<Rightarrow> [] | Some ps \<Rightarrow> ps) = 0
                       then (Inl (Errorf (''no go files in: '' @ goDirPath)), h)
                       else (case initProgram w h goDirPath of
                               (Inr prog, h1) \<Rightarrow>
                                 (case module (progs h1 prog) of
                                    None \<Rightarrow>
                                      (Inl (Errorf (''can't find go.mod in: '' @ goDirPath)), h1)
                                  | Some m \<Rightarrow>
                                      (case inferGoPkgInfo w (Some m) goDirPath of
                                         Inl findErr \<Rightarrow>
                                           (Inl (Errorf (''can't infer package path: ''
                                                          @ goDirPath)), h1)
                                       | Inr (ppath, name, ignored) \<Rightarrow>
                                           loadPackages w h1 prog fset goDirPath ppath name
                                             (case found of None \<Rightarrow> [] | Some ps \<Rightarrow> ps) []))
                             | (Inl modErr, h1) \<Rightarrow>
                                 (Inl (Errorf (''can't find go.mod in: '' @ goDirPath)), h1))))"

section \<open>Example worlds\<close>

text \<open>A manifest with a module line, a language version and a \<open>require\<close> block.\<close>

definition exampleManifest :: string where
  "exampleManifest =
     ''module example.com/app'' @ [CHR 0x0A, CHR 0x0A] @
     ''go 1.20'' @ [CHR 0x0A, CHR 0x0A] @
     ''require ('' @ [CHR 0x0A, CHR 0x09] @
     ''example.com/dep v1.2.3'' @ [CHR 0x0A, CHR 0x09] @
     ''example.com/indirectdep v0.9.0 // indirect'' @ [CHR 0x0A] @
     '')'' @ [CHR 0x0A]"

definition noParser :: "string \<Rightarrow> string \<Rightarrow> error + syntax_tree" where
  "noParser file src = Inl (ParseError file)"

definition noChecker :: "string \<Rightarrow> FileSet option \<Rightarrow> ast_File list \<Rightarrow> check_result" where
  "noChecker ppath fset trees = \<lparr>resPkg = None, resInfo = TypesInfo 0, resErr = None\<rparr>"

text \<open>
  \<open>/r\<close> holds the manifest \<open>go.mod\<close> and a second file \<open>xgo.mod\<close>; \<open>/r/empty\<close> holds a
  manifest of zero bytes.
\<close>

definition manifestWorld :: world where
  "manifestWorld =
     \<lparr>root = Directory
        [(''r'', Directory
           [(''go.mod'', File exampleManifest),
            (''xgo.mod'', File ''module example.com/other''),
            (''empty'', Directory [(''go.mod'', File [])])])],
      cwd = ''/r'', now = 0, goarch = ''amd64'', parser = noParser,
      checker = noChecker\<rparr>"

text \<open>A heap with one empty Program, at address 0.\<close>

definition oneProgramHeap :: heap where
  "oneProgramHeap = snd (allocProgram emptyHeap newProgram)"

text \<open>The same after a package has been created at \<open>example.com/app/pkg\<close>.\<close>

definition onePackageHeap :: heap where
  "onePackageHeap =
     snd (Program_newPackage oneProgramHeap (Some 0) ''pkg'' ''example.com/app/pkg'' ''/r/pkg'')"

text \<open>The same after the source file \<open>/r/pkg/a.go\<close> has been registered in that package.\<close>

definition oneFileHeap :: heap where
  "oneFileHeap = snd (Package_newSrcFile onePackageHeap (Some 0) ''/r/pkg/a.go'')"

text \<open>The same after \<open>/r/pkg/b.go\<close> has been registered too.\<close>

definition twoFileHeap :: heap where
  "twoFileHeap = snd (Package_newSrcFile oneFileHeap (Some 0) ''/r/pkg/b.go'')"

text \<open>
  A package at address 0 whose position table holds \<open>/r/pkg/a.go\<close> (positions 1 to 21)
  and \<open>/r/pkg/b.go\<close> (positions 22 to 52), with the two source files at addresses 0 and
  1, and four members: one in each file, a nil one and one without a position.
\<close>

definition memberHeap :: heap where
  "memberHeap =
     emptyHeap
       \<lparr>pkgs := (pkgs emptyHeap)
          (0 := (newPackage None ''pkg'' ''/r/pkg'' ''/r/pkg'')
                  \<lparr>fileSet := Some [\<lparr>fname = ''/r/pkg/a.go'', fbase = 1, fsize = 20\<rparr>,
                                    \<lparr>fname = ''/r/pkg/b.go'', fbase = 22, fsize = 30\<rparr>],
                   srcFiles := [''/r/pkg/a.go'' \<mapsto> 0, ''/r/pkg/b.go'' \<mapsto> 1]\<rparr>),
        files := (files emptyHeap)
          (0 := newSrcFile (Some 0) ''/r/pkg/a.go'', 1 := newSrcFile (Some 0) ''/r/pkg/b.go''),
        nextPkg := 1, nextFile := 2\<rparr>"

definition exampleMembers :: "(string \<times> Member option) list" where
  "exampleMembers =
     [(''F'', Some \<lparr>memberName = ''F'', memberPos = 5\<rparr>),
      (''G'', Some \<lparr>memberName = ''G'', memberPos = 30\<rparr>),
      (''N'', None),
      (''H'', Some \<lparr>memberName = ''H'', memberPos = 0\<rparr>)]"

text \<open>
  The members \<open>SrcFile.update\<close> keeps for a file at path \<open>p\<close>, written as a function of
  the member entries.
\<close>

fun attached :: "FileSet \<Rightarrow> string \<Rightarrow> (string \<times> Member option) list \<Rightarrow> Member list" where
  "attached fset p [] = []"
| "attached fset p ((key, None) # rest) = attached fset p rest"
| "attached fset p ((key, Some m) # rest) =
     (if memberPos m \<noteq> 0 \<and> PositionFilename fset (memberPos m) = p
      then m # attached fset p rest else attached fset p rest)"

text \<open>
  The Go parser on the example files, as a table from source text to what the parser
  finds in it; any other text is a syntax error. The last text has a comment before its
  package clause. The type checker of the examples accepts everything.
\<close>

definition parseTable :: "(string \<times> syntax_tree) list" where
  "parseTable =
     [(''package pkg'' @ [CHR 0x0A],
         \<lparr>pkgOffset = 0, declName = ''pkg'', importLits = []\<rparr>),
      (''package mixed'' @ [CHR 0x0A],
         \<lparr>pkgOffset = 0, declName = ''mixed'', importLits = []\<rparr>),
      (''package main'' @ [CHR 0x0A],
         \<lparr>pkgOffset = 0, declName = ''main'', importLits = []\<rparr>),
      (''/* solo */ package main'' @ [CHR 0x0A],
         \<lparr>pkgOffset = 11, declName = ''main'', importLits = []\<rparr>)]"

definition toyParser :: "string \<Rightarrow> string \<Rightarrow> error + syntax_tree" where
  "toyParser file src =
     (case map_of parseTable src of
        Some tree \<Rightarrow> Inr tree
      | None \<Rightarrow> Inl (ParseError (file @ '': syntax error'')))"

definition toyChecker :: "string \<Rightarrow> FileSet option \<Rightarrow> ast_File list \<Rightarrow> check_result" where
  "toyChecker ppath fset trees =
     \<lparr>resPkg = Some (TypesPackage ppath), resInfo = TypesInfo 0, resErr = None\<rparr>"

text \<open>
  The module \<open>example.com/app\<close> lives in \<open>/r\<close>: \<open>/r/pkg\<close> holds one well-formed file,
  \<open>/r/mixed\<close> two files of package \<open>mixed\<close>, \<open>ahead.go\<close> well-formed and \<open>bad.go\<close> with a
  syntax error after its package clause, \<open>/r/gone\<close> a file of zero bytes. \<open>/tmp/solo\<close> is outside any module: \<open>main.go\<close> is an ordinary file, \<open>doc.go\<close>
  has a comment in front of \<open>package main\<close> on the same line.
\<close>

definition loaderWorld :: world where
  "loaderWorld =
     \<lparr>root = Directory
        [(''r'', Directory
           [(''go.mod'', File exampleManifest),
            (''gone'', Directory [(''empty.go'', File [])]),
            (''mixed'', Directory
               [(''ahead.go'', File (''package mixed'' @ [CHR 0x0A])),
                (''bad.go'', File (''package mixed'' @ [CHR 0x0A, CHR 0x0A] @
                                  ''func broken('' @ [CHR 0x0A]))]),
            (''pkg'', Directory [(''a.go'', File (''package pkg'' @ [CHR 0x0A]))])]),
         (''tmp'', Directory
           [(''solo'', Directory
              [(''doc.go'', File (''/* solo */ package main'' @ [CHR 0x0A])),
               (''main.go'', File (''package main'' @ [CHR 0x0A]))])])],
      cwd = ''/r'', now = 0, goarch = ''amd64'', parser = toyParser, checker = toyChecker\<rparr>"

text \<open>
  A package for \<open>/r/gone\<close> whose position table holds \<open>empty.go\<close> as it was when it was
  parsed (twelve bytes), and the syntax trees of that package.
\<close>

definition goneHeap :: heap where
  "goneHeap =
     emptyHeap
       \<lparr>pkgs := (pkgs emptyHeap)
          (0 := (newPackage None ''gone'' ''example.com/app/gone'' ''/r/gone'')
                  \<lparr>fileSet := Some [\<lparr>fname = ''/r/gone/empty.go'', fbase = 1, fsize = 12\<rparr>]\<rparr>),
        nextPkg := 1\<rparr>"

definition gonePackage :: ast_Package where
  "gonePackage =
     \<lparr>apName = ''gone'',
      apFiles = [(''/r/gone/empty.go'', Some \<lparr>sPos = 1, sName = ''gone'', sImports = []\<rparr>)]\<rparr>"

text \<open>A file that cannot be parsed: it cannot be read, or the parser rejects its text.\<close>

definition parseFails :: "world \<Rightarrow> string \<Rightarrow> bool" where
  "parseFails w filename =
     (case ReadFile w filename of Inl err \<Rightarrow> True | Inr src \<Rightarrow> isl (parser w filename src))"

text \<open>A file no bytes of which can be used: it cannot be read, or it is empty.\<close>

definition unreadable :: "world \<Rightarrow> string \<Rightarrow> bool" where
  "unreadable w p = (case ReadFile w p of Inl err \<Rightarrow> True | Inr bytes \<Rightarrow> bytes = [])"


text \<open>The example world with a type checker that returns neither a package nor an error.\<close>

definition noTypesWorld :: world where
  "noTypesWorld = loaderWorld\<lparr>checker := noChecker\<rparr>"

text \<open>A package for \<open>/r/pkg\<close> with its position table, and its syntax trees.\<close>

definition pkgHeap :: heap where
  "pkgHeap =
     emptyHeap
       \<lparr>pkgs := (pkgs emptyHeap)
          (0 := (newPackage None ''pkg'' ''example.com/app/pkg'' ''/r/pkg'')
                  \<lparr>fileSet := Some [\<lparr>fname = ''/r/pkg/a.go'', fbase = 1, fsize = 12\<rparr>]\<rparr>),
        nextPkg := 1\<rparr>"

definition pkgPackage :: ast_Package where
  "pkgPackage =
     \<lparr>apName = ''pkg'',
      apFiles = [(''/r/pkg/a.go'', Some \<lparr>sPos = 1, sName = ''pkg'', sImports = []\<rparr>)]\<rparr>"

section \<open>The manifest reader: parsing\<close>

text \<open>The lines of a manifest that set the module name or a dependency.\<close>

definition relevantLine :: "string \<Rightarrow> bool" where
  "relevantLine l = (HasPrefix l ModulePrefix \<or> HasPrefix l TabString)"

definition exampleLines :: "string list" where
  "exampleLines =
     [''module example.com/app'',
      CHR 0x09 # ''example.com/dep v1.2.3'',
      CHR 0x09 # ''example.com/indirectdep v0.9.0 // indirect'']"

lemma moduleLine_skip:
  assumes "\<not> relevantLine l"
  shows "ModuleName (moduleLine m l) = ModuleName m"
    and "DirectDeps (moduleLine m l) = DirectDeps m"
    and "IndirectDeps (moduleLine m l) = IndirectDeps m"
  using assms by (simp_all add: moduleLine_def relevantLine_def)

lemma moduleLine_core:
  assumes "ModuleName m = ModuleName m'" "DirectDeps m = DirectDeps m'"
    and "IndirectDeps m = IndirectDeps m'"
  shows "ModuleName (moduleLine m l) = ModuleName (moduleLine m' l)
       \<and> DirectDeps (moduleLine m l) = DirectDeps (moduleLine m' l)
       \<and> IndirectDeps (moduleLine m l) = IndirectDeps (moduleLine m' l)"
  using assms by (simp add: moduleLine_def Let_def)

text \<open>Only the relevant lines decide the module name and the two dependency maps.\<close>

lemma foldl_moduleLine_filter:
  assumes "ModuleName m = ModuleName m'" "DirectDeps m = DirectDeps m'"
    and "IndirectDeps m = IndirectDeps m'"
  shows "ModuleName (foldl moduleLine m ls)
           = ModuleName (foldl moduleLine m' (filter relevantLine ls))
       \<and> DirectDeps (foldl moduleLine m ls)
           = DirectDeps (foldl moduleLine m' (filter relevantLine ls))
       \<and> IndirectDeps (foldl moduleLine m ls)
           = IndirectDeps (foldl moduleLine m' (filter relevantLine ls))"
  using assms
proof (induction ls arbitrary: m m')
  case Nil
  then show ?case by simp
next
  case (Cons l ls)
  show ?case
  proof (cases "relevantLine l")
    case True
    have "ModuleName (moduleLine m l) = ModuleName (moduleLine m' l)"
      "DirectDeps (moduleLine m l) = DirectDeps (moduleLine m' l)"
      "IndirectDeps (moduleLine m l) = IndirectDeps (moduleLine m' l)"
      using moduleLine_core [OF Cons.prems] by simp_all
    from Cons.IH [OF this] True show ?thesis by simp
  next
    case False
    have "ModuleName (moduleLine m l) = ModuleName m'"
      "DirectDeps (moduleLine m l) = DirectDeps m'"
      "IndirectDeps (moduleLine m l) = IndirectDeps m'"
      using moduleLine_skip [OF False] Cons.prems by simp_all
    from Cons.IH [OF this] False show ?thesis by simp
  qed
qed

lemma TrimSpace_example:
  "TrimSpace ''example.com/app'' = ''example.com/app''"
  "TrimSpace (CHR 0x09 # ''example.com/dep v1.2.3'') = ''example.com/dep v1.2.3''"
  "TrimSpace (CHR 0x09 # ''example.com/indirectdep v0.9.0 // indirect'')
     = ''example.com/indirectdep v0.9.0 // indirect''"
  "TrimSpace ''example.com/dep'' = ''example.com/dep''"
  "TrimSpace ''example.com/indirectdep'' = ''example.com/indirectdep''"
  "TrimSpace ''v1.2.3'' = ''v1.2.3''"
  "TrimSpace ''v0.9.0'' = ''v0.9.0''"
  "TrimSpace ''indirect'' = ''indirect''"
  by code_simp+

lemma Split_example:
  "Split ''example.com/dep v1.2.3'' SpaceChar = [''example.com/dep'', ''v1.2.3'']"
  "Split ''example.com/indirectdep v0.9.0 // indirect'' SpaceChar
     = [''example.com/indirectdep'', ''v0.9.0'', ''//'', ''indirect'']"
  by code_simp+

lemma moduleLine_module:
  "moduleLine m ''module example.com/app'' = m\<lparr>ModuleName := ''example.com/app''\<rparr>"
  by (simp add: moduleLine_def HasPrefix_def ModulePrefix_def TrimSpace_example)

lemma moduleLine_direct:
  "moduleLine m (CHR 0x09 # ''example.com/dep v1.2.3'')
     = m\<lparr>DirectDeps := (DirectDeps m)(''example.com/dep'' \<mapsto> ''v1.2.3'')\<rparr>"
  by (simp add: moduleLine_def HasPrefix_def ModulePrefix_def VersionPrefix_def TabString_def
      GoModIndirect_def TrimSpace_example Split_example)

lemma moduleLine_indirect:
  "moduleLine m (CHR 0x09 # ''example.com/indirectdep v0.9.0 // indirect'')
     = m\<lparr>IndirectDeps := (IndirectDeps m)(''example.com/indirectdep'' \<mapsto> ''v0.9.0'')\<rparr>"
  by (simp add: moduleLine_def HasPrefix_def ModulePrefix_def VersionPrefix_def TabString_def
      GoModIndirect_def TrimSpace_example Split_example)

text \<open>
  C6. A manifest whose module and tab-indented lines are \<open>module example.com/app\<close>,
  \<open>example.com/dep v1.2.3\<close> and \<open>example.com/indirectdep v0.9.0 // indirect\<close> (whatever
  its other lines are) is read into a Module named \<open>example.com/app\<close> with exactly one
  direct dependency, \<open>example.com/dep\<close> at \<open>v1.2.3\<close>, and exactly one indirect dependency,
  \<open>example.com/indirectdep\<close> at \<open>v0.9.0\<close>.
\<close>

theorem newModule_example_manifest:
  assumes "Stat w goModFile = Inr n"
    and "HasSuffix goModFile GoModFileName"
    and "ReadFile w (Abs w goModFile) = Inr bytes"
    and "filter relevantLine (Split bytes NewLine) = exampleLines"
  shows "\<exists>m. newModule w goModFile = Inr m
           \<and> ModuleName m = ''example.com/app''
           \<and> DirectDeps m = [''example.com/dep'' \<mapsto> ''v1.2.3'']
           \<and> IndirectDeps m = [''example.com/indirectdep'' \<mapsto> ''v0.9.0'']"
proof -
  define m0 where "m0 = \<lparr>RootPath = Dir (Abs w goModFile), GoVersion = [],
    GoModFile = Abs w goModFile, ModuleName = [],
    DirectDeps = Map.empty, IndirectDeps = Map.empty\<rparr>"
  have "bytes \<noteq> []"
  proof
    assume "bytes = []"
    then have "filter relevantLine (Split bytes NewLine) = []"
      by (simp add: Split_def NewLine_def relevantLine_def HasPrefix_def
          ModulePrefix_def TabString_def)
    with assms(4) show False by (simp add: exampleLines_def)
  qed
  then have run: "newModule w goModFile = Inr (foldl moduleLine m0 (Split bytes NewLine))"
    using assms(1-3) by (simp add: newModule_def notExist_def m0_def Let_def)
  have "foldl moduleLine m0 exampleLines
      = m0\<lparr>ModuleName := ''example.com/app'',
           DirectDeps := [''example.com/dep'' \<mapsto> ''v1.2.3''],
           IndirectDeps := [''example.com/indirectdep'' \<mapsto> ''v0.9.0'']\<rparr>"
    by (simp add: exampleLines_def moduleLine_module moduleLine_direct moduleLine_indirect
        m0_def)
  with foldl_moduleLine_filter [of m0 m0 "Split bytes NewLine"] assms(4) run
  show ?thesis by simp
qed

theorem newModule_example_manifest_witness:
  "\<exists>m. newModule manifestWorld ''/r/go.mod'' = Inr m
      \<and> ModuleName m = ''example.com/app''
      \<and> DirectDeps m = [''example.com/dep'' \<mapsto> ''v1.2.3'']
      \<and> IndirectDeps m = [''example.com/indirectdep'' \<mapsto> ''v0.9.0'']"
proof -
  have 1: "Stat manifestWorld ''/r/go.mod'' = Inr (File exampleManifest)"
    by code_simp
  have 2: "HasSuffix ''/r/go.mod'' GoModFileName"
    by code_simp
  have 3: "ReadFile manifestWorld (Abs manifestWorld ''/r/go.mod'') = Inr exampleManifest"
    by code_simp
  have 4: "filter relevantLine (Split exampleManifest NewLine) = exampleLines"
    by code_simp
  show ?thesis
    using newModule_example_manifest [OF 1 2 3 4] .
qed

section \<open>The manifest reader: failures\<close>

text \<open>
  C7, as the code has it, one case at a time. When \<open>os.Stat\<close> answers that the path
  does not exist, the reader fails with that error. When the path exists and does not end
  with the manifest name, it fails with "not go.mod". When the path exists, ends with the
  manifest name and the file holds zero bytes, it fails with "empty file". In none of
  these cases is a Module returned.
\<close>

theorem newModule_failures:
  "(Stat w f = Inl err \<and> IsNotExist err \<longrightarrow> newModule w f = Inl err)
 \<and> (Stat w f = Inr n \<and> \<not> HasSuffix f GoModFileName
      \<longrightarrow> newModule w f = Inl (Errorf (''not go.mod: '' @ f)))
 \<and> (Stat w f = Inr n \<and> HasSuffix f GoModFileName \<and> ReadFile w (Abs w f) = Inr []
      \<longrightarrow> newModule w f = Inl (Errorf (''empty file: '' @ Abs w f)))"
  by (simp add: newModule_def notExist_def Let_def)

theorem newModule_failures_witness:
  "newModule manifestWorld ''/r/missing/go.mod'' = Inl (NotExist ''/r/missing/go.mod'')
 \<and> newModule manifestWorld ''/r/empty'' = Inl (Errorf ''not go.mod: /r/empty'')
 \<and> newModule manifestWorld ''/r/empty/go.mod'' = Inl (Errorf ''empty file: /r/empty/go.mod'')"
proof -
  have 1: "Stat manifestWorld ''/r/missing/go.mod'' = Inl (NotExist ''/r/missing/go.mod'')
             \<and> IsNotExist (NotExist ''/r/missing/go.mod'')"
    by code_simp
  have 2: "Stat manifestWorld ''/r/empty'' = Inr (Directory [(''go.mod'', File [])])
             \<and> \<not> HasSuffix ''/r/empty'' GoModFileName"
    by code_simp
  have 3: "Stat manifestWorld ''/r/empty/go.mod'' = Inr (File [])
             \<and> HasSuffix ''/r/empty/go.mod'' GoModFileName
             \<and> ReadFile manifestWorld (Abs manifestWorld ''/r/empty/go.mod'') = Inr []"
    by code_simp
  have 4: "Abs manifestWorld ''/r/empty/go.mod'' = ''/r/empty/go.mod''"
    by code_simp
  show ?thesis
    using newModule_failures [of manifestWorld "''/r/missing/go.mod''"
        "NotExist ''/r/missing/go.mod''"] 1
      newModule_failures [of manifestWorld "''/r/empty''" _ "Directory [(''go.mod'', File [])]"] 2
      newModule_failures [of manifestWorld "''/r/empty/go.mod''" _ "File []"] 3
    by (simp add: 4)
qed

text \<open>
  The file \<open>/r/xgo.mod\<close> is not named \<open>go.mod\<close>, but its path ends with \<open>go.mod\<close>: the
  reader accepts it and returns the Module it declares.
\<close>

theorem newModule_wrong_name_accepted:
  "Base ''/r/xgo.mod'' \<noteq> GoModFileName
 \<and> map_sum id ModuleName (newModule manifestWorld ''/r/xgo.mod'') = Inr ''example.com/other''"
proof -
  have 1: "Base ''/r/xgo.mod'' \<noteq> GoModFileName"
    by code_simp
  have 2: "Stat manifestWorld ''/r/xgo.mod'' = Inr (File ''module example.com/other'')"
    by code_simp
  have 3: "HasSuffix ''/r/xgo.mod'' GoModFileName"
    by code_simp
  have 4: "ReadFile manifestWorld (Abs manifestWorld ''/r/xgo.mod'')
             = Inr ''module example.com/other''"
    by code_simp
  have 5: "Split ''module example.com/other'' NewLine = [''module example.com/other'']"
    by code_simp
  have 6: "TrimSpace ''example.com/other'' = ''example.com/other''"
    by code_simp
  show ?thesis
    using 1 2 3 4 5 6
    by (simp add: newModule_def notExist_def moduleLine_def HasPrefix_def ModulePrefix_def
        Let_def)
qed

section \<open>The package factory\<close>

text \<open>
  C10. When the registry of a Program already holds a package at import path \<open>P\<close>, the
  factory called at \<open>P\<close> with any short name and directory returns that package and
  changes nothing: the whole heap, and so the package's short name, import path and
  directory path, is as before.
\<close>

theorem Program_newPackage_existing:
  assumes "pkgSet (progs h pa) P = Some a"
  shows "\<exists>h'. Program_newPackage h (Some pa) name' P dir' = (Some a, h')
           \<and> pkgName (pkgs h' a) = pkgName (pkgs h a)
           \<and> pkgPath (pkgs h' a) = pkgPath (pkgs h a)
           \<and> dirPath (pkgs h' a) = dirPath (pkgs h a)
           \<and> h' = h"
  using assms by (simp add: Program_newPackage_def)

lemma onePackageHeap_registry:
  "pkgSet (progs onePackageHeap 0) ''example.com/app/pkg'' = Some 0"
  by (simp add: onePackageHeap_def oneProgramHeap_def Program_newPackage_def allocPackage_def
      allocProgram_def emptyHeap_def newProgram_def)

lemma onePackageHeap_package:
  "pkgs onePackageHeap 0 = newPackage (Some 0) ''pkg'' ''example.com/app/pkg'' ''/r/pkg''"
  by (simp add: onePackageHeap_def oneProgramHeap_def Program_newPackage_def allocPackage_def
      allocProgram_def emptyHeap_def newProgram_def)

theorem Program_newPackage_existing_witness:
  "\<exists>h'. Program_newPackage onePackageHeap (Some 0) ''other'' ''example.com/app/pkg'' ''/tmp''
          = (Some 0, h')
      \<and> pkgName (pkgs h' 0) = ''pkg''
      \<and> pkgPath (pkgs h' 0) = ''example.com/app/pkg''
      \<and> dirPath (pkgs h' 0) = ''/r/pkg''
      \<and> h' = onePackageHeap"
  using Program_newPackage_existing [OF onePackageHeap_registry, of "''other''" "''/tmp''"]
  by (simp add: onePackageHeap_package newPackage_def)

text \<open>
  C8. Take two calls of the factory at the same import path \<open>P\<close>, with a source file
  registered in the returned package between them. Both calls return the same, non-nil
  package pointer. The first call creates the package, with an empty source-file
  registry, only when \<open>P\<close> was not registered; otherwise it returns the registered
  package and changes nothing. The second call changes nothing: after it the registry
  is the one the first call left, with the file registered in between added to it, so
  no entry has been dropped.
\<close>

theorem Program_newPackage_idempotent:
  assumes "Program_newPackage h (Some pa) n1 P d1 = (r1, h1)"
    and "Package_newSrcFile h1 r1 f = (rf, h1')"
    and "Program_newPackage h1' (Some pa) n2 P d2 = (r2, h2)"
  shows "\<exists>a. r1 = Some a \<and> r2 = Some a
           \<and> (case pkgSet (progs h pa) P of
                 Some b \<Rightarrow> b = a \<and> h1 = h
               | None \<Rightarrow> srcFiles (pkgs h1 a) = Map.empty)
           \<and> h2 = h1'
           \<and> rf \<noteq> None
           \<and> srcFiles (pkgs h2 a) = (srcFiles (pkgs h1 a))(f := rf)
           \<and> dom (srcFiles (pkgs h2 a)) = insert f (dom (srcFiles (pkgs h1 a)))"
proof -
  have first: "pkgSet (progs h1 pa) P = r1 \<and> r1 \<noteq> None
      \<and> (case pkgSet (progs h pa) P of
            Some b \<Rightarrow> Some b = r1 \<and> h1 = h
          | None \<Rightarrow> srcFiles (pkgs h1 (the r1)) = Map.empty)"
    using assms(1)
    by (auto simp add: Program_newPackage_def allocPackage_def newPackage_def Let_def
        split: option.splits)
  then obtain a where a: "r1 = Some a" by auto
  have reg: "progs h1' = progs h1 \<and> rf \<noteq> None
      \<and> srcFiles (pkgs h1' a) = (srcFiles (pkgs h1 a))(f := rf)"
    using assms(2) a
    by (auto simp add: Package_newSrcFile_def allocSrcFile_def Let_def split: option.splits)
  have second: "r2 = Some a \<and> h2 = h1'"
    using assms(3) first a reg by (auto simp add: Program_newPackage_def)
  have "dom ((srcFiles (pkgs h1 a))(f := rf)) = insert f (dom (srcFiles (pkgs h1 a)))"
    using reg by auto
  then show ?thesis
    using first a reg second by (auto split: option.splits)
qed

lemma oneFileHeap_step:
  "Package_newSrcFile onePackageHeap (Some 0) ''/r/pkg/a.go'' = (Some 0, oneFileHeap)"
proof -
  have "fst (Package_newSrcFile onePackageHeap (Some 0) ''/r/pkg/a.go'') = Some 0"
    by code_simp
  then show ?thesis
    by (simp add: oneFileHeap_def prod_eq_iff)
qed

lemma twoFileHeap_step:
  "Package_newSrcFile oneFileHeap (Some 0) ''/r/pkg/b.go'' = (Some 1, twoFileHeap)"
proof -
  have "fst (Package_newSrcFile oneFileHeap (Some 0) ''/r/pkg/b.go'') = Some 1"
    by code_simp
  then show ?thesis
    by (simp add: twoFileHeap_def prod_eq_iff)
qed

theorem Program_newPackage_idempotent_witness:
  "Program_newPackage oneProgramHeap (Some 0) ''pkg'' ''example.com/app/pkg'' ''/r/pkg''
     = (Some 0, onePackageHeap)
 \<and> srcFiles (pkgs onePackageHeap 0) = Map.empty
 \<and> Package_newSrcFile onePackageHeap (Some 0) ''/r/pkg/a.go'' = (Some 0, oneFileHeap)
 \<and> Program_newPackage oneFileHeap (Some 0) ''other'' ''example.com/app/pkg'' ''/tmp''
     = (Some 0, oneFileHeap)
 \<and> dom (srcFiles (pkgs oneFileHeap 0)) = {''/r/pkg/a.go''}
 \<and> Package_newSrcFile oneFileHeap (Some 0) ''/r/pkg/b.go'' = (Some 1, twoFileHeap)
 \<and> Program_newPackage twoFileHeap (Some 0) ''pkg'' ''example.com/app/pkg'' ''/r/pkg''
     = (Some 0, twoFileHeap)
 \<and> dom (srcFiles (pkgs twoFileHeap 0)) = {''/r/pkg/a.go'', ''/r/pkg/b.go''}"
proof -
  have "fst (Program_newPackage oneProgramHeap (Some 0) ''pkg'' ''example.com/app/pkg''
               ''/r/pkg'') = Some 0"
    by code_simp
  then have 1: "Program_newPackage oneProgramHeap (Some 0) ''pkg'' ''example.com/app/pkg''
                  ''/r/pkg'' = (Some 0, onePackageHeap)"
    by (simp add: onePackageHeap_def prod_eq_iff)
  have 2: "Program_newPackage oneFileHeap (Some 0) ''other'' ''example.com/app/pkg'' ''/tmp''
             = (fst (Program_newPackage oneFileHeap (Some 0) ''other''
                       ''example.com/app/pkg'' ''/tmp''),
                snd (Program_newPackage oneFileHeap (Some 0) ''other''
                       ''example.com/app/pkg'' ''/tmp''))"
    by simp
  have 3: "pkgSet (progs oneProgramHeap 0) ''example.com/app/pkg'' = None"
    by code_simp
  have created: "Program_newPackage oneFileHeap (Some 0) ''other'' ''example.com/app/pkg''
                   ''/tmp'' = (Some 0, oneFileHeap)
      \<and> srcFiles (pkgs onePackageHeap 0) = Map.empty
      \<and> dom (srcFiles (pkgs oneFileHeap 0)) = {''/r/pkg/a.go''}"
    using Program_newPackage_idempotent [OF 1 oneFileHeap_step 2] 2 3 by auto
  have 4: "Program_newPackage twoFileHeap (Some 0) ''pkg'' ''example.com/app/pkg'' ''/r/pkg''
             = (fst (Program_newPackage twoFileHeap (Some 0) ''pkg''
                       ''example.com/app/pkg'' ''/r/pkg''),
                snd (Program_newPackage twoFileHeap (Some 0) ''pkg''
                       ''example.com/app/pkg'' ''/r/pkg''))"
    by simp
  have existing: "Program_newPackage twoFileHeap (Some 0) ''pkg'' ''example.com/app/pkg''
                    ''/r/pkg'' = (Some 0, twoFileHeap)
      \<and> dom (srcFiles (pkgs twoFileHeap 0)) = {''/r/pkg/a.go'', ''/r/pkg/b.go''}"
    using Program_newPackage_idempotent
      [OF conjunct1 [OF created] twoFileHeap_step 4] 4 created
    by auto
  show ?thesis
    using 1 oneFileHeap_step twoFileHeap_step created existing by simp
qed

section \<open>Membership of derived members\<close>

lemma set_attached:
  "m \<in> set (attached fset p members) \<longleftrightarrow>
     (\<exists>key. (key, Some m) \<in> set members) \<and> memberPos m \<noteq> 0
     \<and> PositionFilename fset (memberPos m) = p"
  by (induction fset p members rule: attached.induct) auto

lemma PositionFilename_NoPos: "PositionFilename fset 0 = []"
  by (simp add: PositionFilename_def)

text \<open>The loop of \<open>update\<close> appends exactly the members \<open>attached\<close> selects.\<close>

lemma attach_spec:
  assumes "filePkg (files h fa) = Some pa" and "fileSet (pkgs h pa) = Some fset"
  shows "fst (attach h fa ms) = None
       \<and> memSet (files (snd (attach h fa ms)) fa)
           = memSet (files h fa) @ attached fset (filePath (files h fa)) ms
       \<and> filePath (files (snd (attach h fa ms)) fa) = filePath (files h fa)
       \<and> fileCode (files (snd (attach h fa ms)) fa) = fileCode (files h fa)
       \<and> fileSyntax (files (snd (attach h fa ms)) fa) = fileSyntax (files h fa)
       \<and> filePkg (files (snd (attach h fa ms)) fa) = Some pa
       \<and> pkgs (snd (attach h fa ms)) = pkgs h
       \<and> progs (snd (attach h fa ms)) = progs h"
  using assms
proof (induction h fa ms rule: attach.induct)
  case (1 h fa)
  then show ?case by simp
next
  case (2 h fa key rest)
  then show ?case by simp
next
  case (3 h fa key member rest)
  show ?case
  proof (cases "memberPos member \<noteq> 0
      \<and> PositionFilename fset (memberPos member) = filePath (files h fa)")
    case True
    then have c: "Contain h (Some fa) (memberPos member) = Inr True"
      using 3(3,4) by (simp add: Contain_def Position_def)
    let ?h = "h\<lparr>files := (files h)
      (fa := (files h fa)\<lparr>memSet := memSet (files h fa) @ [member]\<rparr>)\<rparr>"
    have "filePkg (files ?h fa) = Some pa" "fileSet (pkgs ?h pa) = Some fset"
      using 3(3,4) by simp_all
    from 3(1) [OF c _ this] c True show ?thesis
      by simp
  next
    case False
    then have c: "Contain h (Some fa) (memberPos member) = Inr False"
      using 3(3,4) by (auto simp add: Contain_def Position_def)
    from 3(2) [OF c _ 3(3,4)] c False show ?thesis
      by auto
  qed
qed

lemma memberHeap_file: "files memberHeap 0 = newSrcFile (Some 0) ''/r/pkg/a.go''"
  by (simp add: memberHeap_def)

lemma memberHeap_fileSet:
  "fileSet (pkgs memberHeap 0)
     = Some [\<lparr>fname = ''/r/pkg/a.go'', fbase = 1, fsize = 20\<rparr>,
             \<lparr>fname = ''/r/pkg/b.go'', fbase = 22, fsize = 30\<rparr>]"
  by (simp add: memberHeap_def)

text \<open>
  C9. Let a source file with a non-empty path belong to a package that has a position
  table. After \<open>update\<close> with a set of members, a member is attached to the file if and
  only if it is one of the (non-nil) members supplied and its position, resolved through
  the package's position table, gives a file name equal to the file's path, byte for
  byte. So a member that resolves to any other path, such as the path of a sibling file
  that differs in its last segment, is not attached.
\<close>

theorem update_membership:
  assumes "filePkg (files h fa) = Some pa"
    and "fileSet (pkgs h pa) = Some fset"
    and "filePath (files h fa) \<noteq> []"
    and "SrcFile_update h (Some fa) src syn members = (r, h')"
  shows "r = None
       \<and> filePath (files h' fa) = filePath (files h fa)
       \<and> (\<forall>m. m \<in> set (memSet (files h' fa)) \<longleftrightarrow>
              (\<exists>key. (key, Some m) \<in> set members)
              \<and> PositionFilename fset (memberPos m) = filePath (files h fa))
       \<and> (\<forall>m other. PositionFilename fset (memberPos m) = other
              \<and> other \<noteq> filePath (files h fa)
              \<longrightarrow> m \<notin> set (memSet (files h' fa)))"
proof -
  let ?h = "h\<lparr>files := (files h)
    (fa := (files h fa)\<lparr>fileCode := src, fileSyntax := syn, memSet := []\<rparr>)\<rparr>"
  have a: "filePkg (files ?h fa) = Some pa" "fileSet (pkgs ?h pa) = Some fset"
    using assms(1,2) by simp_all
  have run: "attach ?h fa members = (r, h')"
    using assms(4) by (simp add: SrcFile_update_def)
  from attach_spec [OF a, of members] run
  have r: "r = None"
    and ms: "memSet (files h' fa) = attached fset (filePath (files h fa)) members"
    and fp: "filePath (files h' fa) = filePath (files h fa)"
    by simp_all
  show ?thesis
    using r ms fp set_attached assms(3) PositionFilename_NoPos by metis
qed

theorem update_membership_witness:
  "fst (SrcFile_update memberHeap (Some 0) ''package pkg'' None exampleMembers) = None
 \<and> (\<forall>m. m \<in> set (memSet (files (snd (SrcFile_update memberHeap (Some 0) ''package pkg'' None
                                        exampleMembers)) 0)) \<longleftrightarrow>
        (\<exists>key. (key, Some m) \<in> set exampleMembers)
        \<and> PositionFilename [\<lparr>fname = ''/r/pkg/a.go'', fbase = 1, fsize = 20\<rparr>,
                            \<lparr>fname = ''/r/pkg/b.go'', fbase = 22, fsize = 30\<rparr>] (memberPos m)
            = ''/r/pkg/a.go'')"
proof -
  have 1: "filePkg (files memberHeap 0) = Some 0"
    by (simp add: memberHeap_file newSrcFile_def)
  have 3: "filePath (files memberHeap 0) \<noteq> []"
    by (simp add: memberHeap_file newSrcFile_def)
  have 4: "SrcFile_update memberHeap (Some 0) ''package pkg'' None exampleMembers
     = (fst (SrcFile_update memberHeap (Some 0) ''package pkg'' None exampleMembers),
        snd (SrcFile_update memberHeap (Some 0) ''package pkg'' None exampleMembers))"
    by simp
  have 5: "filePath (files memberHeap 0) = ''/r/pkg/a.go''"
    by (simp add: memberHeap_file newSrcFile_def)
  show ?thesis
    using update_membership [OF 1 memberHeap_fileSet 3 4] by (simp add: 5)
qed

text \<open>In the example only the member \<open>F\<close>, at position 5 of \<open>a.go\<close>, is attached.\<close>

lemma update_example:
  "memSet (files (snd (SrcFile_update memberHeap (Some 0) ''package pkg'' None exampleMembers)) 0)
     = [\<lparr>memberName = ''F'', memberPos = 5\<rparr>]"
  by (simp add: SrcFile_update_def exampleMembers_def Contain_def Position_def
      PositionFilename_def memberHeap_def newSrcFile_def newPackage_def emptyHeap_def)

section \<open>The per-package pass and files that cannot be read\<close>

lemma readFiles_none_read:
  assumes "fileSet (pkgs h pa) = Some fset"
    and "\<forall>key syn. (key, Some syn) \<in> set fs
           \<longrightarrow> unreadable w (Abs w (PositionFilename fset (sPos syn)))"
  shows "\<exists>li'. readFiles w h pa li astFiles fs = Inr (h, li', astFiles)
           \<and> LoadedFiles li' = LoadedFiles li
           \<and> length (FileErrors li') = length (FileErrors li) + length (List.map_filter snd fs)"
  using assms(2)
proof (induction fs arbitrary: li)
  case Nil
  then show ?case by (simp add: List.map_filter_simps)
next
  case (Cons entry fs)
  obtain key t where entry: "entry = (key, t)" by (cases entry)
  show ?case
  proof (cases t)
    case None
    with Cons entry show ?thesis by (simp add: List.map_filter_simps)
  next
    case (Some syn)
    have u: "unreadable w (Abs w (PositionFilename fset (sPos syn)))"
      using Cons.prems entry Some by auto
    have rest: "\<forall>key syn. (key, Some syn) \<in> set fs
           \<longrightarrow> unreadable w (Abs w (PositionFilename fset (sPos syn)))"
      using Cons.prems by auto
    show ?thesis
    proof (cases "ReadFile w (Abs w (PositionFilename fset (sPos syn)))")
      case (Inl readErr)
      from Cons.IH [OF rest, of "li\<lparr>FileErrors := FileErrors li @ [readErr]\<rparr>"] Inl
      show ?thesis
        using entry Some assms(1) by (simp add: Position_def List.map_filter_simps)
    next
      case (Inr bytes)
      with u have "bytes = []" by (simp add: unreadable_def)
      with Cons.IH [OF rest, of "li\<lparr>FileErrors := FileErrors li
          @ [Errorf (''empty file: '' @ Abs w (PositionFilename fset (sPos syn)))]\<rparr>"] Inr
      show ?thesis
        using entry Some assms(1) by (simp add: Position_def List.map_filter_simps)
    qed
  qed
qed

text \<open>The per-package pass when no file of the package can be read.\<close>

lemma parseGoPackageByFree_none_read:
  assumes "fileSet (pkgs h pa) = Some fset"
    and "apFiles ap \<noteq> []"
    and "\<forall>key syn. (key, Some syn) \<in> set (apFiles ap)
           \<longrightarrow> unreadable w (Abs w (PositionFilename fset (sPos syn)))"
  shows "\<exists>h' li. parseGoPackageByFree w h (Some pa) (Some ap) = (None, h')
           \<and> checks h' = (pkgPath (pkgs h pa), []) # checks h
           \<and> loadInfo (pkgs h' pa) = Some li
           \<and> LoadedFiles li = []
           \<and> length (FileErrors li) = length (List.map_filter snd (apFiles ap))"
proof -
  let ?li0 = "\<lparr>LoadTime = now w, LoadedFiles = [], IgnoredFiles = [], IllTyped = False,
    FileErrors = [], TypeErrors = [], DepsErrors = []\<rparr>"
  obtain li' where rf: "readFiles w h pa ?li0 [] (apFiles ap) = Inr (h, li', [])"
    and li': "LoadedFiles li' = []"
      "length (FileErrors li') = length (List.map_filter snd (apFiles ap))"
    using readFiles_none_read [OF assms(1,3), of ?li0 "[]"] by auto
  show ?thesis
    using assms(2) rf li'
    by (auto simp add: parseGoPackageByFree_def Let_def split: option.splits)
qed

text \<open>
  C4, as the code has it, in two independent parts. On an input without syntax trees (a
  nil package, a nil syntax package, or one whose file map is empty) the pass fails with
  "no go files"; the heap, and with it the record of type-checker invocations, is then
  unchanged. On a package with a position table and at least one syntax tree, none of
  whose files can be read (each fails to read or has zero bytes), the pass returns no
  error: it records one file error per syntax tree, loads no file, and invokes the type
  checker on the empty list of syntax trees.
\<close>

theorem parseGoPackageByFree_no_files:
  "(p = None \<or> astPkg = None \<or> (\<exists>ap. astPkg = Some ap \<and> apFiles ap = [])
      \<longrightarrow> parseGoPackageByFree w h p astPkg = (Some (Errorf ''no go files in: ''), h))
 \<and> (fileSet (pkgs h pa) = Some fset \<and> apFiles ap \<noteq> []
      \<and> (\<forall>key syn. (key, Some syn) \<in> set (apFiles ap)
             \<longrightarrow> unreadable w (Abs w (PositionFilename fset (sPos syn))))
      \<longrightarrow> (\<exists>h' li. parseGoPackageByFree w h (Some pa) (Some ap) = (None, h')
             \<and> checks h' = (pkgPath (pkgs h pa), []) # checks h
             \<and> loadInfo (pkgs h' pa) = Some li
             \<and> LoadedFiles li = []
             \<and> length (FileErrors li) = length (List.map_filter snd (apFiles ap))))"
proof (intro conjI impI)
  assume "p = None \<or> astPkg = None \<or> (\<exists>ap. astPkg = Some ap \<and> apFiles ap = [])"
  then show "parseGoPackageByFree w h p astPkg = (Some (Errorf ''no go files in: ''), h)"
    by (auto simp add: parseGoPackageByFree_def split: option.splits)
next
  assume a: "fileSet (pkgs h pa) = Some fset \<and> apFiles ap \<noteq> []
      \<and> (\<forall>key syn. (key, Some syn) \<in> set (apFiles ap)
             \<longrightarrow> unreadable w (Abs w (PositionFilename fset (sPos syn))))"
  then have 1: "fileSet (pkgs h pa) = Some fset" and 2: "apFiles ap \<noteq> []"
    and 3: "\<forall>key syn. (key, Some syn) \<in> set (apFiles ap)
             \<longrightarrow> unreadable w (Abs w (PositionFilename fset (sPos syn)))"
    by simp_all
  from parseGoPackageByFree_none_read [OF 1 2 3]
  show "\<exists>h' li. parseGoPackageByFree w h (Some pa) (Some ap) = (None, h')
             \<and> checks h' = (pkgPath (pkgs h pa), []) # checks h
             \<and> loadInfo (pkgs h' pa) = Some li
             \<and> LoadedFiles li = []
             \<and> length (FileErrors li) = length (List.map_filter snd (apFiles ap))" .
qed

theorem parseGoPackageByFree_no_files_witness:
  "parseGoPackageByFree loaderWorld emptyHeap None (Some gonePackage)
     = (Some (Errorf ''no go files in: ''), emptyHeap)
 \<and> parseGoPackageByFree loaderWorld goneHeap (Some 0) (Some \<lparr>apName = ''gone'', apFiles = []\<rparr>)
     = (Some (Errorf ''no go files in: ''), goneHeap)
 \<and> (\<exists>h' li. parseGoPackageByFree loaderWorld goneHeap (Some 0) (Some gonePackage) = (None, h')
       \<and> checks h' = (pkgPath (pkgs goneHeap 0), []) # checks goneHeap
       \<and> loadInfo (pkgs h' 0) = Some li
       \<and> LoadedFiles li = []
       \<and> length (FileErrors li) = length (List.map_filter snd (apFiles gonePackage)))"
proof -
  have 2: "fileSet (pkgs goneHeap 0)
             = Some [\<lparr>fname = ''/r/gone/empty.go'', fbase = 1, fsize = 12\<rparr>]"
    by (simp add: goneHeap_def newPackage_def)
  have 3: "apFiles gonePackage \<noteq> []"
    by (simp add: gonePackage_def)
  have u: "unreadable loaderWorld
             (Abs loaderWorld
                (PositionFilename [\<lparr>fname = ''/r/gone/empty.go'', fbase = 1, fsize = 12\<rparr>] 1))"
    by code_simp
  have 4: "\<forall>key syn. (key, Some syn) \<in> set (apFiles gonePackage)
             \<longrightarrow> unreadable loaderWorld
                   (Abs loaderWorld
                      (PositionFilename [\<lparr>fname = ''/r/gone/empty.go'', fbase = 1, fsize = 12\<rparr>]
                         (sPos syn)))"
    using u by (simp add: gonePackage_def)
  have a: "parseGoPackageByFree loaderWorld emptyHeap None (Some gonePackage)
             = (Some (Errorf ''no go files in: ''), emptyHeap)"
    using parseGoPackageByFree_no_files
      [where p = None and astPkg = "Some gonePackage" and w = loaderWorld and h = emptyHeap]
    by simp
  have b: "parseGoPackageByFree loaderWorld goneHeap (Some 0)
             (Some \<lparr>apName = ''gone'', apFiles = []\<rparr>)
             = (Some (Errorf ''no go files in: ''), goneHeap)"
    using parseGoPackageByFree_no_files
      [where p = "Some 0" and astPkg = "Some \<lparr>apName = ''gone'', apFiles = []\<rparr>"
         and w = loaderWorld and h = goneHeap]
    by simp
  show ?thesis
    using a b
      parseGoPackageByFree_no_files
        [where w = loaderWorld and h = goneHeap and pa = 0 and ap = gonePackage,
         THEN conjunct2, THEN mp, OF conjI [OF 2 conjI [OF 3 4]]]
    by blast
qed

text \<open>
  The package of \<open>/r/gone\<close> has one syntax tree, and its file now has zero bytes: no file
  is read, yet the pass returns no error and the type checker has been invoked on the
  empty list of syntax trees.
\<close>

theorem parseGoPackageByFree_checks_nothing:
  "fst (parseGoPackageByFree loaderWorld goneHeap (Some 0) (Some gonePackage)) = None
 \<and> checks (snd (parseGoPackageByFree loaderWorld goneHeap (Some 0) (Some gonePackage)))
      = [(''example.com/app/gone'', [])]
 \<and> map_option LoadedFiles
      (loadInfo (pkgs (snd (parseGoPackageByFree loaderWorld goneHeap (Some 0)
                              (Some gonePackage))) 0))
      = Some []"
  by code_simp

section \<open>The ill-typed flag\<close>






text \<open>
  With a type checker that returns no package the per-package pass marks the package
  ill-typed and records the error "no types.Package".
\<close>

lemma parseGoPackageByFree_no_types:
  "map_option IllTyped
     (loadInfo (pkgs (snd (parseGoPackageByFree noTypesWorld pkgHeap (Some 0)
                             (Some pkgPackage))) 0))
     = Some True
 \<and> map_option TypeErrors
     (loadInfo (pkgs (snd (parseGoPackageByFree noTypesWorld pkgHeap (Some 0)
                             (Some pkgPackage))) 0))
     = Some [Errorf ''no types.Package'']
 \<and> map_option LoadedFiles
     (loadInfo (pkgs (snd (parseGoPackageByFree noTypesWorld pkgHeap (Some 0)
                             (Some pkgPackage))) 0))
     = Some [''/r/pkg/a.go'']"
  by code_simp

section \<open>The directory loader\<close>

text \<open>A directory is never accepted as a manifest.\<close>

lemma newModule_directory:
  assumes "Stat w (Abs w g) = Inr (Directory es)"
  shows "\<exists>err. newModule w g = Inl err"
  using assms
  by (auto simp add: newModule_def ReadFile_def Let_def split: option.splits)

text \<open>
  Paths as lists of elements: cleaning, \<open>filepath.Dir\<close> and \<open>os.Stat\<close> on a cleaned
  rooted path.
\<close>

lemma splitSep_no_slash: "CHR ''/'' \<notin> set s \<Longrightarrow> splitSep acc s = [rev acc @ s]"
  by (induction s arbitrary: acc) auto

lemma splitSep_piece:
  "CHR ''/'' \<notin> set c \<Longrightarrow> splitSep acc (c @ CHR ''/'' # rest) = (rev acc @ c) # splitSep [] rest"
  by (induction c arbitrary: acc) auto

lemma splitSep_joinSep:
  "cs \<noteq> [] \<Longrightarrow> \<forall>c \<in> set cs. CHR ''/'' \<notin> set c \<Longrightarrow> splitSep [] (joinSep cs) = cs"
proof (induction cs rule: joinSep.induct)
  case 1
  then show ?case by simp
next
  case (2 e)
  then show ?case by (simp add: splitSep_no_slash)
next
  case (3 e v va)
  then show ?case by (simp add: splitSep_piece)
qed

lemma joinSep_snoc: "xs \<noteq> [] \<Longrightarrow> joinSep (xs @ [c]) = joinSep xs @ CHR ''/'' # c"
  by (induction xs rule: joinSep.induct) auto

lemma splitSep_slash_free:
  "e \<in> set (splitSep acc s) \<Longrightarrow> CHR ''/'' \<notin> set acc \<Longrightarrow> CHR ''/'' \<notin> set e"
proof (induction s arbitrary: acc)
  case Nil
  then show ?case by simp
next
  case (Cons a s)
  show ?case
  proof (cases "a = CHR ''/''")
    case True
    with Cons.prems have "e = rev acc \<or> e \<in> set (splitSep [] s)" by simp
    then show ?thesis
      using Cons.IH [of "[]"] Cons.prems(2) by auto
  next
    case False
    with Cons.prems have "e \<in> set (splitSep (a # acc) s)" by simp
    then show ?thesis
      using Cons.IH [of "a # acc"] Cons.prems(2) False by auto
  qed
qed

lemma cleanElems_append:
  "cleanElems r st (xs @ ys) = cleanElems r (rev (cleanElems r st xs)) ys"
  by (induction xs arbitrary: st) (auto split: list.splits)

lemma cleanElems_good: "goodElems cs \<Longrightarrow> cleanElems r st cs = rev st @ cs"
proof (induction cs arbitrary: st)
  case Nil
  then show ?case by simp
next
  case (Cons e cs)
  then have e: "e \<noteq> []" "e \<noteq> ''.''" "e \<noteq> ''..''" and g: "goodElems cs"
    by (simp_all add: goodElems_def)
  have "cleanElems r st (e # cs) = cleanElems r (e # st) cs"
    using e by simp
  then show ?case
    using Cons.IH [OF g, of "e # st"] by simp
qed

lemma cleanElems_rooted_good:
  assumes "\<forall>e \<in> set xs. CHR ''/'' \<notin> set e" and "goodElems st"
  shows "goodElems (cleanElems True st xs)"
  using assms
proof (induction xs arbitrary: st)
  case Nil
  then show ?case by (simp add: goodElems_def)
next
  case (Cons e xs)
  have xs: "\<forall>e \<in> set xs. CHR ''/'' \<notin> set e" and e: "CHR ''/'' \<notin> set e"
    using Cons.prems(1) by simp_all
  consider "e = [] \<or> e = ''.''" | "e = ''..''" | "e \<noteq> []" "e \<noteq> ''.''" "e \<noteq> ''..''"
    by blast
  then show ?case
  proof cases
    case 1
    then have "cleanElems True st (e # xs) = cleanElems True st xs" by auto
    then show ?thesis using Cons.IH [OF xs Cons.prems(2)] by simp
  next
    case 2
    show ?thesis
    proof (cases st)
      case Nil
      then have "cleanElems True st (e # xs) = cleanElems True [] xs" using 2 by simp
      then show ?thesis using Cons.IH [OF xs, of "[]"] by (simp add: goodElems_def)
    next
      case (Cons t ts)
      then have "t \<noteq> ''..''" and "goodElems ts"
        using Cons.prems(2) by (simp_all add: goodElems_def)
      then have "cleanElems True st (e # xs) = cleanElems True ts xs" using 2 Cons by simp
      then show ?thesis using Cons.IH [OF xs \<open>goodElems ts\<close>] by simp
    qed
  next
    case 3
    then have "cleanElems True st (e # xs) = cleanElems True (e # st) xs" by simp
    moreover have "goodElems (e # st)"
      using 3 e Cons.prems(2) by (simp add: goodElems_def)
    ultimately show ?thesis using Cons.IH [OF xs] by simp
  qed
qed

lemma Clean_rooted:
  assumes "IsAbs p"
  shows "\<exists>cs. goodElems cs \<and> Clean p = render cs"
proof -
  have ne: "p \<noteq> []" using assms by (auto simp add: IsAbs_def HasPrefix_def)
  have "\<forall>e \<in> set (splitSep [] p). CHR ''/'' \<notin> set e"
    using splitSep_slash_free [of _ "[]" p] by simp
  then have "goodElems (cleanElems True [] (splitSep [] p))"
    using cleanElems_rooted_good [of "splitSep [] p" "[]"] by (simp add: goodElems_def)
  moreover have "Clean p = render (cleanElems True [] (splitSep [] p))"
    using assms ne by (simp add: Clean_def render_def)
  ultimately show ?thesis by blast
qed

lemma splitSep_render:
  assumes "goodElems cs"
  shows "splitSep [] (render cs) = [] # (if cs = [] then [[]] else cs)"
proof (cases "cs = []")
  case True
  then show ?thesis by (simp add: render_def)
next
  case False
  have "\<forall>c \<in> set cs. CHR ''/'' \<notin> set c"
    using assms by (simp add: goodElems_def)
  from splitSep_joinSep [OF False this] False show ?thesis
    by (simp add: render_def)
qed

lemma IsAbs_render: "IsAbs (render cs)"
  by (simp add: IsAbs_def HasPrefix_def render_def)

lemma Clean_render: "goodElems cs \<Longrightarrow> Clean (render cs) = render cs"
proof -
  assume g: "goodElems cs"
  have "cleanElems True [] (splitSep [] (render cs)) = cs"
  proof (cases "cs = []")
    case True
    then show ?thesis by (simp add: render_def)
  next
    case False
    then have "splitSep [] (render cs) = [] # cs"
      using splitSep_render [OF g] by simp
    then show ?thesis
      using cleanElems_good [OF g, of True "[]"] by simp
  qed
  moreover have "render cs \<noteq> []" by (simp add: render_def)
  ultimately show ?thesis
    using IsAbs_render [of cs] by (simp add: Clean_def render_def)
qed

lemma elems_render: "goodElems cs \<Longrightarrow> elems (render cs) = cs"
proof -
  assume g: "goodElems cs"
  then have "filter (\<lambda>e. e \<noteq> []) cs = cs"
    by (simp add: goodElems_def filter_id_conv)
  then show ?thesis
    using splitSep_render [OF g] by (simp add: elems_def)
qed

lemma splitSep_joinSep_slash:
  assumes "xs \<noteq> []" and "\<forall>c \<in> set xs. CHR ''/'' \<notin> set c"
  shows "splitSep [] (joinSep xs @ ''/'') = xs @ [[]]"
  using assms
proof (induction xs rule: joinSep.induct)
  case 1
  then show ?case by simp
next
  case (2 e)
  then show ?case by (simp add: splitSep_piece)
next
  case (3 e v va)
  then show ?case by (simp add: splitSep_piece)
qed

lemma Dir_render:
  assumes "goodElems (xs @ [c])"
  shows "Dir (render (xs @ [c])) = render xs"
proof -
  have c: "CHR ''/'' \<notin> set c" and gx: "goodElems xs"
    using assms by (simp_all add: goodElems_def)
  show ?thesis
  proof (cases "xs = []")
    case True
    have "dropWhile (\<lambda>x. x \<noteq> CHR ''/'') (rev c @ ''/'') = ''/''"
      using c by (simp add: dropWhile_append)
    then have "Dir (render (xs @ [c])) = Clean ''/''"
      using True by (simp add: Dir_def render_def)
    also have "\<dots> = render []"
      by (simp add: render_def Clean_def IsAbs_def HasPrefix_def)
    finally show ?thesis using True by simp
  next
    case False
    have "render (xs @ [c]) = render xs @ CHR ''/'' # c"
      using False by (simp add: render_def joinSep_snoc)
    then have "rev (dropWhile (\<lambda>x. x \<noteq> CHR ''/'') (rev (render (xs @ [c])))) = render xs @ ''/''"
      using c by (simp add: dropWhile_append)
    then have d: "Dir (render (xs @ [c])) = Clean (render xs @ ''/'')"
      by (simp add: Dir_def)
    have "\<forall>c \<in> set xs. CHR ''/'' \<notin> set c"
      using gx by (simp add: goodElems_def)
    from splitSep_joinSep_slash [OF False this]
    have "splitSep [] (render xs @ ''/'') = [] # xs @ [[]]"
      by (simp add: render_def)
    moreover have "cleanElems True [] ([] # xs @ [[]]) = xs"
      using cleanElems_good [OF gx, of True "[]"] by (simp add: cleanElems_append)
    moreover have "IsAbs (render xs @ ''/'')"
      by (simp add: IsAbs_def HasPrefix_def render_def)
    ultimately have "Clean (render xs @ ''/'') = render xs"
      by (simp add: Clean_def render_def)
    with d show ?thesis by simp
  qed
qed

lemma walk_message: "walk p n cs = Inr m \<Longrightarrow> walk q n cs = Inr m"
proof (induction cs arbitrary: n)
  case Nil
  then show ?case by simp
next
  case (Cons c cs)
  then show ?case
    by (cases n) (auto split: option.splits sum.splits)
qed

lemma walk_snoc:
  "walk p n (xs @ [c]) = Inr m \<Longrightarrow> \<exists>es. walk p n xs = Inr (Directory es)"
proof (induction xs arbitrary: n)
  case Nil
  then show ?case by (cases n) (auto split: option.splits)
next
  case (Cons x xs)
  then show ?case
    by (cases n) (auto split: option.splits sum.splits)
qed

text \<open>
  The search for the manifest, started at a directory, answers a directory: the one in
  which \<open>go.mod\<close> was found. The manifest reader rejects it, so \<open>initProgram\<close> fails at
  every directory, the directory loader never returns a Package, and the single-file
  loader always falls back to the standalone package.
\<close>

lemma render_snoc_not_stop:
  assumes "c \<noteq> []"
  shows "0 < length (render (xs @ [c])) \<and> render (xs @ [c]) \<noteq> ''/''
       \<and> render (xs @ [c]) \<noteq> ''.'' \<and> render (xs @ [c]) \<noteq> ''..''"
proof -
  have "joinSep (xs @ [c]) \<noteq> []"
    using assms by (cases "xs = []") (simp_all add: joinSep_snoc)
  then show ?thesis by (simp add: render_def)
qed

lemma Abs_render: "goodElems cs \<Longrightarrow> Abs w (render cs) = render cs"
  by (simp add: Abs_def IsAbs_render Clean_render)

text \<open>On the elements of a cleaned path the kernel's resolution is the descent by names.\<close>

lemma resolve_good:
  "goodElems cs \<Longrightarrow> map_sum id fst (resolve p (n, up) cs) = walk p n cs"
proof (induction cs arbitrary: n up)
  case Nil
  then show ?case by simp
next
  case (Cons c cs)
  then have c: "c \<noteq> []" "c \<noteq> ''.''" "c \<noteq> ''..''" and g: "goodElems cs"
    by (simp_all add: goodElems_def)
  show ?case
  proof (cases "child p n c")
    case (Inl e)
    then show ?thesis using c by simp
  next
    case (Inr m)
    then show ?thesis using c Cons.IH [OF g, of m "n # up"] by simp
  qed
qed

lemma Stat_rooted:
  "Stat w (render cs)
     = (if IsDir (root w)
        then map_sum id fst (resolve (render cs) (root w, []) (tl (splitSep [] (render cs))))
        else Inl (NotDir (render cs)))"
proof -
  have "splitSep [] (render cs) = [] # tl (splitSep [] (render cs))"
    by (simp add: render_def)
  then have "resolve (render cs) (root w, []) (splitSep [] (render cs))
      = (if IsDir (root w)
         then resolve (render cs) (root w, []) (tl (splitSep [] (render cs)))
         else Inl (NotDir (render cs)))"
    by (metis (no_types, lifting) climb.simps resolve.simps(2) sum.simps(5,6))
  moreover have "render cs \<noteq> []" by (simp add: render_def)
  ultimately show ?thesis
    using IsAbs_render [of cs]
    by (auto simp add: Stat_def map_sum_def split: sum.splits prod.splits)
qed

lemma Stat_render:
  assumes "goodElems cs" and "IsDir (root w)"
  shows "Stat w (render cs) = walk (render cs) (root w) cs"
proof (cases "cs = []")
  case True
  then show ?thesis
    using assms(2) by (simp add: Stat_rooted) (simp add: render_def)
next
  case False
  then have "tl (splitSep [] (render cs)) = cs"
    using splitSep_render [OF assms(1)] by simp
  then show ?thesis
    using assms(2) resolve_good [OF assms(1)] by (simp add: Stat_rooted)
qed

lemma Stat_needs_root: "Stat w (render cs) = Inr n \<Longrightarrow> IsDir (root w)"
  by (simp add: Stat_rooted split: if_splits)

lemma goModFileLoop_directory:
  assumes "goodElems cs" and "walk p (root w) cs = Inr (Directory es)"
    and "goModFileLoop w start (render cs) = Inr g"
    and "IsDir (root w)"
  shows "\<exists>es'. Stat w (Abs w g) = Inr (Directory es')"
  using assms
proof (induction cs arbitrary: es rule: rev_induct)
  case Nil
  have "render [] = ''/''" by (simp add: render_def)
  then show ?case
    using Nil.prems(3) by (simp add: goModFileLoop.simps)
next
  case (snoc c xs)
  have c: "c \<noteq> []" and gx: "goodElems xs"
    using snoc.prems(1) by (simp_all add: goodElems_def)
  note ns = render_snoc_not_stop [OF c, of xs]
  have step: "goModFileLoop w start (render (xs @ [c]))
      = (if notExist (Stat w (Join [render (xs @ [c]), GoModFileName])) = None
         then Inr (render (xs @ [c])) else goModFileLoop w start (render xs))"
    using ns goModFileLoop.simps [of w start "render (xs @ [c])"] Dir_render [OF snoc.prems(1)]
    by (simp add: Let_def)
  show ?case
  proof (cases "notExist (Stat w (Join [render (xs @ [c]), GoModFileName])) = None")
    case True
    then have "g = render (xs @ [c])"
      using snoc.prems(3) step by simp
    moreover have "Stat w (render (xs @ [c])) = Inr (Directory es)"
      using Stat_render [OF snoc.prems(1,4)] walk_message [OF snoc.prems(2)] by simp
    ultimately show ?thesis
      using Abs_render [OF snoc.prems(1)] by simp
  next
    case False
    then have "goModFileLoop w start (render xs) = Inr g"
      using snoc.prems(3) step by metis
    moreover obtain es' where "walk p (root w) xs = Inr (Directory es')"
      using walk_snoc [OF snoc.prems(2)] by blast
    ultimately show ?thesis
      using snoc.IH [OF gx _ _ snoc.prems(4)] by blast
  qed
qed

lemma initProgram_rendered:
  assumes "goodElems cs" and "Stat w (render cs) = Inr (Directory es)"
  shows "\<exists>err. initProgram w h (render cs) = (Inl err, h)"
proof -
  have ne: "render cs \<noteq> []" by (simp add: render_def)
  have rt: "IsDir (root w)"
    using Stat_needs_root [OF assms(2)] .
  have wk: "walk (render cs) (root w) cs = Inr (Directory es)"
    using assms(2) Stat_render [OF assms(1) rt] by simp
  show ?thesis
  proof (cases "goModFileLoop w (render cs) (render cs)")
    case (Inl err)
    then show ?thesis
      using ne by (simp add: initProgram_def goModFileOf_def Abs_render [OF assms(1)])
  next
    case (Inr g)
    obtain es' where "Stat w (Abs w g) = Inr (Directory es')"
      using goModFileLoop_directory [OF assms(1) wk Inr rt] by blast
    then obtain err where "newModule w g = Inl err"
      using newModule_directory by blast
    then show ?thesis
      using ne Inr by (simp add: initProgram_def goModFileOf_def Abs_render [OF assms(1)])
  qed
qed

lemma Abs_rendered:
  assumes "IsAbs (cwd w)"
  shows "\<exists>cs. goodElems cs \<and> Abs w p = render cs"
proof (cases "IsAbs p")
  case True
  then show ?thesis using Clean_rooted by (simp add: Abs_def)
next
  case False
  have c: "cwd w \<noteq> []" using assms by (auto simp add: IsAbs_def HasPrefix_def)
  have "IsAbs (joinSep (filter (\<lambda>e. e \<noteq> []) [cwd w, p]))"
    using assms c by (cases "p = []") (auto simp add: IsAbs_def HasPrefix_def prefix_def)
  then show ?thesis
    using False c Clean_rooted by (simp add: Abs_def Join_def)
qed

lemma loadGoDirectoryByFree_never_loads:
  assumes "IsAbs (cwd w)"
  shows "\<exists>err h'. loadGoDirectoryByFree w h goDir = (Inl err, h')"
proof -
  obtain cs where cs: "goodElems cs" "Abs w goDir = render cs"
    using Abs_rendered [OF assms] by blast
  show ?thesis
  proof (cases "Stat w (render cs)")
    case (Inl err)
    then show ?thesis
      using cs by (simp add: loadGoDirectoryByFree_def)
  next
    case (Inr fileInfo)
    show ?thesis
    proof (cases fileInfo)
      case (Directory es)
      obtain err where ip: "initProgram w h (render cs) = (Inl err, h)"
        using initProgram_rendered [OF cs(1)] Inr Directory by blast
      obtain fset found first where pd: "ParseDir w [] (render cs) = (fset, found, first)"
        by (cases "ParseDir w [] (render cs)") auto
      show ?thesis
        using cs Inr Directory ip pd
        by (cases first) (auto simp add: loadGoDirectoryByFree_def Let_def)
    next
      case (File bytes)
      then show ?thesis using cs Inr by (simp add: loadGoDirectoryByFree_def)
    next
      case Locked
      then show ?thesis using cs Inr by (simp add: loadGoDirectoryByFree_def)
    qed
  qed
qed

lemma loadSourceFileByFree_always_standalone:
  assumes "IsAbs (cwd w)"
    and "Stat w (Abs w codeFile) = Inr (File src)"
    and "HasSuffix (Abs w codeFile) GoFileSuffix"
  shows "loadSourceFileByFree w h codeFile = loadStandalone w h (Abs w codeFile)"
proof -
  obtain cs where cs: "goodElems cs" "Abs w codeFile = render cs"
    using Abs_rendered [OF assms(1)] by blast
  have rt: "IsDir (root w)"
    using Stat_needs_root [of w cs] assms(2) cs(2) by simp
  have wk: "walk (render cs) (root w) cs = Inr (File src)"
    using assms(2) cs Stat_render [OF cs(1) rt] by simp
  have "\<exists>err. initProgram w h (Dir (render cs)) = (Inl err, h)"
  proof (cases cs rule: rev_cases)
    case Nil
    have "Dir (render []) = ''/''"
      by (simp add: Dir_def render_def Clean_def IsAbs_def HasPrefix_def)
    moreover have "Abs w ''/'' = ''/''"
      by (simp add: Abs_def IsAbs_def HasPrefix_def Clean_def)
    moreover have "\<exists>err. goModFileLoop w ''/'' ''/'' = Inl err"
      by (subst goModFileLoop.simps) simp
    ultimately show ?thesis
      using Nil by (auto simp add: initProgram_def goModFileOf_def)
  next
    case (snoc xs c)
    then have gx: "goodElems xs" and d: "Dir (render cs) = render xs"
      using cs(1) Dir_render [of xs c] by (simp_all add: goodElems_def)
    obtain es where es: "walk (render cs) (root w) xs = Inr (Directory es)"
      using walk_snoc wk snoc by blast
    have "Stat w (render xs) = Inr (Directory es)"
      using Stat_render [OF gx rt] walk_message [OF es] by simp
    then show ?thesis
      using initProgram_rendered [OF gx] d by simp
  qed
  then obtain err where ip: "initProgram w h (Dir (Abs w codeFile)) = (Inl err, h)"
    using cs(2) by auto
  have n: "\<not> IsDir (File src)" by simp
  show ?thesis
    unfolding loadSourceFileByFree_def Let_def
    using assms(2,3) ip n by simp
qed

text \<open>
  C1 at a concrete input. \<open>/r/pkg\<close> exists, its only file \<open>a.go\<close> parses and declares
  package \<open>pkg\<close>, and the manifest \<open>/r/go.mod\<close> is in the parent directory. The search
  for the manifest answers \<open>/r\<close>, the directory, which the manifest reader rejects as
  "not go.mod"; no Program is made and the loader returns "can't find go.mod" instead
  of the package.
\<close>

theorem loadGoDirectoryByFree_finds_no_module:
  "Stat loaderWorld ''/r/go.mod'' = Inr (File exampleManifest)
 \<and> snd (ParseFile loaderWorld [] ''/r/pkg/a.go'')
      = Inr \<lparr>sPos = 1, sName = ''pkg'', sImports = []\<rparr>
 \<and> goModFileOf loaderWorld ''/r/pkg'' = Inr ''/r''
 \<and> fst (initProgram loaderWorld emptyHeap ''/r/pkg'') = Inl (Errorf ''not go.mod: /r'')
 \<and> fst (loadGoDirectoryByFree loaderWorld emptyHeap ''/r/pkg'')
      = Inl (Errorf ''can't find go.mod in: /r/pkg'')"
  by code_simp

lemma ParseFile_error:
  "snd (ParseFile w fset filename) = Inl err
     \<Longrightarrow> \<exists>fset''. ParseFile w fset' filename = (fset'', Inl err)"
  by (auto simp add: ParseFile_def Let_def split: sum.splits)

lemma ParseFile_parses:
  "\<not> parseFails w filename \<Longrightarrow> \<exists>fset' src. ParseFile w fset filename = (fset', Inr src)"
  by (auto simp add: parseFails_def ParseFile_def Let_def isl_def split: sum.splits)

lemma parseEntries_keeps_error:
  "snd (snd (parseEntries w dir fset found (Some err) es)) = Some err"
proof (induction es arbitrary: fset found)
  case Nil
  then show ?case by simp
next
  case (Cons entry es)
  obtain name n where entry: "entry = (name, n)" by (cases entry)
  show ?case
    using Cons.IH by (auto simp add: entry split: prod.splits sum.splits)
qed

lemma parseEntries_skips_parsed:
  assumes "\<forall>(nm, m) \<in> set before.
             IsDir m \<or> \<not> HasSuffix nm ''.go'' \<or> \<not> parseFails w (Join [dir, nm])"
  shows "\<exists>fset' found'. parseEntries w dir fset found first (before @ rest)
                          = parseEntries w dir fset' found' first rest"
  using assms
proof (induction before arbitrary: fset found)
  case Nil
  then show ?case by auto
next
  case (Cons entry before)
  obtain nm m where entry: "entry = (nm, m)" by (cases entry)
  have rest: "\<forall>(nm, m) \<in> set before.
             IsDir m \<or> \<not> HasSuffix nm ''.go'' \<or> \<not> parseFails w (Join [dir, nm])"
    using Cons.prems by simp
  show ?case
  proof (cases "IsDir m \<or> \<not> HasSuffix nm ''.go''")
    case True
    then show ?thesis
      using Cons.IH [OF rest, of fset found] by (simp add: entry)
  next
    case False
    then have "\<not> parseFails w (Join [dir, nm])"
      using Cons.prems by (simp add: entry)
    then obtain fset1 src where pf: "ParseFile w fset (Join [dir, nm]) = (fset1, Inr src)"
      using ParseFile_parses by blast
    show ?thesis
      using Cons.IH [OF rest, of fset1 "addFile found (sName src) (Join [dir, nm]) src"]
        False pf
      by (simp add: entry)
  qed
qed

lemma parseEntries_first_error:
  assumes "\<forall>(nm, m) \<in> set before.
             IsDir m \<or> \<not> HasSuffix nm ''.go'' \<or> \<not> parseFails w (Join [dir, nm])"
    and "\<not> IsDir n" and "HasSuffix name ''.go''"
    and "snd (ParseFile w [] (Join [dir, name])) = Inl err"
  shows "snd (snd (parseEntries w dir fset found None (before @ (name, n) # rest))) = Some err"
proof -
  obtain fset1 found1 where 1:
    "parseEntries w dir fset found None (before @ (name, n) # rest)
       = parseEntries w dir fset1 found1 None ((name, n) # rest)"
    using parseEntries_skips_parsed [OF assms(1)] by blast
  obtain fset2 where 2: "ParseFile w fset1 (Join [dir, name]) = (fset2, Inl err)"
    using ParseFile_error [OF assms(4)] by blast
  show ?thesis
    using 1 2 assms(2,3) parseEntries_keeps_error by simp
qed

text \<open>
  C2, as the code has it. Let \<open>name\<close> be a file directly inside the directory, with a
  name ending in \<open>.go\<close>, whose parse fails with \<open>err\<close>, and let every source file listed
  before it parse. Then \<open>err\<close> is the error \<open>parser.ParseDir\<close> reports, and the directory
  loader returns this very error and leaves the heap as it was: no Package is produced,
  whatever the other files of the directory are.
\<close>

theorem loadGoDirectoryByFree_parse_error:
  assumes "Stat w (Abs w goDir) = Inr (Directory (before @ (name, n) # rest))"
    and "\<forall>(nm, m) \<in> set before.
           IsDir m \<or> \<not> HasSuffix nm ''.go'' \<or> \<not> parseFails w (Join [Abs w goDir, nm])"
    and "\<not> IsDir n" and "HasSuffix name ''.go''"
    and "snd (ParseFile w [] (Join [Abs w goDir, name])) = Inl err"
  shows "snd (snd (ParseDir w [] (Abs w goDir))) = Some err
       \<and> loadGoDirectoryByFree w h goDir = (Inl err, h)"
proof -
  have pe: "snd (snd (parseEntries w (Abs w goDir) [] [] None (before @ (name, n) # rest)))
              = Some err"
    using parseEntries_first_error [OF assms(2-5)] .
  obtain fset' found where entries:
    "parseEntries w (Abs w goDir) [] [] None (before @ (name, n) # rest)
       = (fset', found, Some err)"
    using pe
    by (cases "parseEntries w (Abs w goDir) [] [] None (before @ (name, n) # rest)") auto
  have pd: "ParseDir w [] (Abs w goDir) = (fset', Some found, Some err)"
    using assms(1) entries by (simp add: ParseDir_def)
  then have "loadGoDirectoryByFree w h goDir = (Inl err, h)"
    using assms(1) by (simp add: loadGoDirectoryByFree_def Let_def)
  with pd show ?thesis by simp
qed

theorem loadGoDirectoryByFree_parse_error_witness:
  "snd (snd (ParseDir loaderWorld [] ''/r/mixed''))
     = Some (ParseError ''/r/mixed/bad.go: syntax error'')
 \<and> loadGoDirectoryByFree loaderWorld emptyHeap ''/r/mixed''
     = (Inl (ParseError ''/r/mixed/bad.go: syntax error''), emptyHeap)"
proof -
  have 0: "Abs loaderWorld ''/r/mixed'' = ''/r/mixed''"
    by code_simp
  have 1: "Stat loaderWorld (Abs loaderWorld ''/r/mixed'')
             = Inr (Directory
                      ([(''ahead.go'', File (''package mixed'' @ [CHR 0x0A]))]
                       @ (''bad.go'', File (''package mixed'' @ [CHR 0x0A, CHR 0x0A] @
                                           ''func broken('' @ [CHR 0x0A]))
                         # []))"
    by code_simp
  have p: "\<not> parseFails loaderWorld (Join [Abs loaderWorld ''/r/mixed'', ''ahead.go''])"
    by code_simp
  have 2: "\<forall>(nm, m) \<in> set [(''ahead.go'', File (''package mixed'' @ [CHR 0x0A]))].
             IsDir m \<or> \<not> HasSuffix nm ''.go''
             \<or> \<not> parseFails loaderWorld (Join [Abs loaderWorld ''/r/mixed'', nm])"
    using p by simp
  have 3: "\<not> IsDir (File (''package mixed'' @ [CHR 0x0A, CHR 0x0A] @
                           ''func broken('' @ [CHR 0x0A]))"
    by simp
  have 4: "HasSuffix ''bad.go'' ''.go''"
    by code_simp
  have 5: "snd (ParseFile loaderWorld [] (Join [Abs loaderWorld ''/r/mixed'', ''bad.go'']))
             = Inl (ParseError ''/r/mixed/bad.go: syntax error'')"
    by code_simp
  show ?thesis
    using loadGoDirectoryByFree_parse_error [OF 1 2 3 4 5, of emptyHeap] by (simp only: 0)
qed

text \<open>
  \<open>/r/mixed\<close> lies inside the module of \<open>/r/go.mod\<close>. Its file \<open>ahead.go\<close> parses and
  declares package \<open>mixed\<close>; \<open>bad.go\<close> declares the same package and has a syntax error.
  The loader returns the parse error of \<open>bad.go\<close>; no package and no source file has
  been allocated.
\<close>

theorem loadGoDirectoryByFree_aborts:
  "Stat loaderWorld ''/r/go.mod'' = Inr (File exampleManifest)
 \<and> snd (ParseFile loaderWorld [] ''/r/mixed/ahead.go'')
     = Inr \<lparr>sPos = 1, sName = ''mixed'', sImports = []\<rparr>
 \<and> readGoPackageIn loaderWorld ''/r/mixed/bad.go'' = Inr ''mixed''
 \<and> snd (ParseFile loaderWorld [] ''/r/mixed/bad.go'')
     = Inl (ParseError ''/r/mixed/bad.go: syntax error'')
 \<and> fst (loadGoDirectoryByFree loaderWorld emptyHeap ''/r/mixed'')
     = Inl (ParseError ''/r/mixed/bad.go: syntax error'')
 \<and> nextPkg (snd (loadGoDirectoryByFree loaderWorld emptyHeap ''/r/mixed'')) = 0
 \<and> nextFile (snd (loadGoDirectoryByFree loaderWorld emptyHeap ''/r/mixed'')) = 0"
  by code_simp

section \<open>The single-file loader\<close>

lemma Clean_nonempty: "Clean p \<noteq> []"
  by (simp add: Clean_def Let_def)

lemma Dir_nonempty: "Dir p \<noteq> []"
  by (simp add: Dir_def Clean_nonempty)

lemma TrimSpace_Nil: "TrimSpace [] = []"
  by (simp add: TrimSpace_def trimFront.simps split: option.splits)

lemma readGoPackageIn_nonempty:
  assumes "ReadFile w f = Inr src" and "readGoPackageIn w f = Inr name"
  shows "src \<noteq> []"
proof
  assume "src = []"
  then have "Split src NewLine = [[]]"
    by (simp add: Split_def NewLine_def)
  then show False
    using assms
    by (auto simp add: readGoPackageIn_def TrimSpace_Nil HasPrefix_def PackagePrefix_def
        split: option.splits)
qed

text \<open>
  C3, as the code has it. Take an existing, readable file whose path ends in \<open>.go\<close>,
  whose text parses, and for which the search for a manifest from its directory upwards
  finds none. If the loader's line scanner finds a package name in the text (a line
  that, trimmed, starts with \<open>package\<close> and a space) and the type checker returns a
  package, the loader succeeds: it returns the source file, which carries the text and
  the syntax tree and belongs to a package outside any Program, named as the scanner
  read it, whose import path and directory are the file's directory.
\<close>

theorem loadSourceFileByFree_standalone:
  assumes "Stat w (Abs w codeFile) = Inr (File src)"
    and "HasSuffix (Abs w codeFile) GoFileSuffix"
    and "goModFileOf w (Abs w (Dir (Abs w codeFile))) = Inl noManifest"
    and "readGoPackageIn w (Abs w codeFile) = Inr name"
    and "parser w (Abs w codeFile) src = Inr tree"
    and "\<And>fset trees. resPkg (checker w (Dir (Abs w codeFile)) fset trees) \<noteq> None"
  shows "\<exists>fa pa h'. loadSourceFileByFree w h codeFile = (Inr fa, h')
           \<and> filePath (files h' fa) = Abs w codeFile
           \<and> fileCode (files h' fa) = src
           \<and> fileSyntax (files h' fa) \<noteq> None
           \<and> filePkg (files h' fa) = Some pa
           \<and> program (pkgs h' pa) = None
           \<and> pkgName (pkgs h' pa) = name
           \<and> pkgPath (pkgs h' pa) = Dir (Abs w codeFile)
           \<and> dirPath (pkgs h' pa) = Dir (Abs w codeFile)
           \<and> srcFiles (pkgs h' pa) (Abs w codeFile) = Some fa
           \<and> loadInfo (pkgs h' pa) \<noteq> None"
proof -
  define codePath where "codePath = Abs w codeFile"
  have rd: "ReadFile w codePath = Inr src"
    using assms(1) by (simp add: ReadFile_def codePath_def)
  have ne: "src \<noteq> []"
    using readGoPackageIn_nonempty [OF rd] assms(4) by (simp add: codePath_def)
  have ip: "initProgram w h (Dir codePath) = (Inl noManifest, h)"
    using assms(3) by (simp add: initProgram_def Dir_nonempty codePath_def)
  obtain tp where tp: "resPkg (checker w (Dir codePath)
       (Some [\<lparr>fname = codePath, fbase = 1, fsize = length src\<rparr>])
       [\<lparr>sPos = 1 + pkgOffset tree, sName = declName tree, sImports = importLits tree\<rparr>]) = Some tp"
    using assms(6) by (auto simp add: codePath_def)
  have pf: "ParseFile w [] codePath
      = ([\<lparr>fname = codePath, fbase = 1, fsize = length src\<rparr>],
         Inr \<lparr>sPos = 1 + pkgOffset tree, sName = declName tree, sImports = importLits tree\<rparr>)"
    using rd assms(5) by (simp add: ParseFile_def fsetBase_def codePath_def)
  have "loadSourceFileByFree w h codeFile = loadStandalone w h codePath"
    using assms(1,2) ip by (simp add: loadSourceFileByFree_def codePath_def [symmetric])
  then show ?thesis
    using rd ne pf tp assms(4)
    by (simp add: loadStandalone_def codePath_def [symmetric] allocPackage_def newPackage_def
        Package_newSrcFile_def allocSrcFile_def newSrcFile_def parseSourceFileByFree_def
        SrcFile_update_def Let_def)
qed

theorem loadSourceFileByFree_standalone_witness:
  "\<exists>fa pa h'. loadSourceFileByFree loaderWorld emptyHeap ''/tmp/solo/main.go'' = (Inr fa, h')
     \<and> filePath (files h' fa) = ''/tmp/solo/main.go''
     \<and> fileCode (files h' fa) = ''package main'' @ [CHR 0x0A]
     \<and> fileSyntax (files h' fa) \<noteq> None
     \<and> filePkg (files h' fa) = Some pa
     \<and> program (pkgs h' pa) = None
     \<and> pkgName (pkgs h' pa) = ''main''
     \<and> pkgPath (pkgs h' pa) = ''/tmp/solo''
     \<and> dirPath (pkgs h' pa) = ''/tmp/solo''
     \<and> srcFiles (pkgs h' pa) ''/tmp/solo/main.go'' = Some fa
     \<and> loadInfo (pkgs h' pa) \<noteq> None"
proof -
  have 0: "Abs loaderWorld ''/tmp/solo/main.go'' = ''/tmp/solo/main.go''"
    "Dir ''/tmp/solo/main.go'' = ''/tmp/solo''"
    by code_simp+
  have 1: "Stat loaderWorld (Abs loaderWorld ''/tmp/solo/main.go'')
             = Inr (File (''package main'' @ [CHR 0x0A]))"
    by code_simp
  have 2: "HasSuffix (Abs loaderWorld ''/tmp/solo/main.go'') GoFileSuffix"
    by code_simp
  have 3: "goModFileOf loaderWorld (Abs loaderWorld (Dir (Abs loaderWorld ''/tmp/solo/main.go'')))
             = Inl (Errorf ''couldn't find `go.mod` file from: /tmp/solo'')"
    by code_simp
  have 4: "readGoPackageIn loaderWorld (Abs loaderWorld ''/tmp/solo/main.go'') = Inr ''main''"
    by code_simp
  have 5: "parser loaderWorld (Abs loaderWorld ''/tmp/solo/main.go'')
               (''package main'' @ [CHR 0x0A])
             = Inr \<lparr>pkgOffset = 0, declName = ''main'', importLits = []\<rparr>"
    by code_simp
  have 6: "resPkg (checker loaderWorld (Dir (Abs loaderWorld ''/tmp/solo/main.go'')) fset trees)
             \<noteq> None" for fset trees
    by (simp add: loaderWorld_def toyChecker_def)
  show ?thesis
    using loadSourceFileByFree_standalone [OF 1 2 3 4 5 6, of emptyHeap]
    by (simp add: 0)
qed

text \<open>
  The file \<open>/tmp/solo/doc.go\<close> exists, is readable, ends in \<open>.go\<close> and parses, and there
  is no manifest above it; its package clause comes after a comment on the same line,
  the line scanner finds no package name, and the loader fails.
\<close>

theorem loadSourceFileByFree_unscanned_clause:
  "Stat loaderWorld ''/tmp/solo/doc.go''
     = Inr (File (''/* solo */ package main'' @ [CHR 0x0A]))
 \<and> HasSuffix ''/tmp/solo/doc.go'' GoFileSuffix
 \<and> snd (ParseFile loaderWorld [] ''/tmp/solo/doc.go'')
      = Inr \<lparr>sPos = 12, sName = ''main'', sImports = []\<rparr>
 \<and> goModFileOf loaderWorld ''/tmp/solo''
      = Inl (Errorf ''couldn't find `go.mod` file from: /tmp/solo'')
 \<and> fst (loadSourceFileByFree loaderWorld emptyHeap ''/tmp/solo/doc.go'')
      = Inl (Errorf ''no package name is found'')"
  by code_simp

end
